theory Spec2Isabelle
  imports Main "HOL-Library.Word"
begin

unbundle bit_operations_syntax

section \<open>Shared types\<close>

type_synonym uint8 = "8 word"
type_synonym uint32 = "32 word"
type_synonym size_t = "64 word"

text \<open>
  A stream object is heap allocated by \<^verbatim>\<open>new\<close>; the registries of \<^verbatim>\<open>Call\<close> hold raw
  pointers to it.  A pointer is modelled by the object's address together with the
  immutable configuration stored in the object.  Pointer comparison (\<^verbatim>\<open>==\<close>, and the order
  of \<^verbatim>\<open>std::set<T*>\<close>) is comparison of addresses.
\<close>

datatype MediaType = ANY | AUDIO | VIDEO

datatype DeliveryStatus = DELIVERY_OK | DELIVERY_UNKNOWN_SSRC | DELIVERY_PACKET_ERROR

datatype NetworkState = kNetworkUp | kNetworkDown

datatype StreamKind = AudioSend | AudioReceive | VideoSend | VideoReceive

datatype RtpState = RtpState nat \<comment> \<open>opaque per-SSRC suspension state\<close>

record PacketTime =
  timestamp :: int
  not_before :: int

record SentPacket =
  packet_id :: int
  send_time_ms :: int

record BitrateConfig =
  min_bitrate_bps :: int
  start_bitrate_bps :: int
  max_bitrate_bps :: int

record AudioSend_Config =
  as_rtp_ssrc :: uint32

record AudioReceive_Config =
  ar_rtp_remote_ssrc :: uint32
  ar_sync_group :: string
  ar_voe_channel_id :: int

record Rtx =
  rtx_ssrc :: uint32
  rtx_payload_type :: int

text \<open>\<^verbatim>\<open>rtp.rtx\<close> is a \<^verbatim>\<open>std::map<int, Rtx>\<close>: its entries in key order.\<close>

record VideoReceive_Config =
  vr_rtp_remote_ssrc :: uint32
  vr_rtp_rtx :: "(int \<times> Rtx) list"
  vr_sync_group :: string

record VideoSend_Config =
  vs_rtp_ssrcs :: "uint32 list"

record AudioSendStream =
  as_addr :: nat
  as_config :: AudioSend_Config

record AudioReceiveStream =
  ar_addr :: nat
  ar_config :: AudioReceive_Config

record VideoSendStream =
  vs_addr :: nat
  vs_config :: VideoSend_Config

record VideoReceiveStream =
  vr_addr :: nat
  vr_config :: VideoReceive_Config

text \<open>
  Every call that \<^verbatim>\<open>Call\<close> makes on a collaborator and that has an effect there is
  recorded, in program order, in a trace.  A stream is named by its kind and address;
  the voice engine by its pointer.
\<close>

datatype event =
    Stream_SignalNetworkState StreamKind nat NetworkState
  | Stream_Stop StreamKind nat
  | Stream_Delete StreamKind nat
  | Stream_DeliverRtp StreamKind nat "uint8 list" PacketTime
  | Stream_DeliverRtcp StreamKind nat "uint8 list"
  | VideoReceiveStream_SetSyncChannel nat "nat option" int
  | CongestionController_SetBweBitrates int int int
  | CongestionController_SignalNetworkState NetworkState
  | CongestionController_OnSentPacket SentPacket
  | EventLog_LogRtpHeader bool MediaType "uint8 list"
  | EventLog_LogRtcpPacket bool MediaType "uint8 list"
  | EventLog_LogVideoSendStreamConfig VideoSend_Config
  | EventLog_LogVideoReceiveStreamConfig VideoReceive_Config
  | LOG_WARNING string

text \<open>
  What the collaborators answer.  These functions are not part of \<^verbatim>\<open>call.cc\<close>; they are
  parameters of the model.
\<close>

record Collaborators =
  IsRtcp :: "uint8 list \<Rightarrow> bool"
  AudioReceiveStream_DeliverRtp :: "AudioReceiveStream \<Rightarrow> uint8 list \<Rightarrow> PacketTime \<Rightarrow> bool"
  VideoReceiveStream_DeliverRtp :: "VideoReceiveStream \<Rightarrow> uint8 list \<Rightarrow> PacketTime \<Rightarrow> bool"
  VideoReceiveStream_DeliverRtcp :: "VideoReceiveStream \<Rightarrow> uint8 list \<Rightarrow> bool"
  VideoSendStream_DeliverRtcp :: "VideoSendStream \<Rightarrow> uint8 list \<Rightarrow> bool"
  VideoSendStream_GetRtpStates :: "VideoSendStream \<Rightarrow> (uint32 \<times> RtpState) list"

datatype fatal = CheckFailed

section \<open>Containers\<close>

text \<open>
  A \<^verbatim>\<open>std::map<K, V>\<close> is the list of its entries in iteration order, which is key order.
\<close>

fun map_find :: "('k \<times> 'v) list \<Rightarrow> 'k \<Rightarrow> 'v option" where
  "map_find [] k = None"
| "map_find ((k', v) # m) k = (if k' = k then Some v else map_find m k)"

text \<open>\<^verbatim>\<open>m[k] = v\<close>\<close>

fun map_assign :: "'k::linorder \<Rightarrow> 'v \<Rightarrow> ('k \<times> 'v) list \<Rightarrow> ('k \<times> 'v) list" where
  "map_assign k v [] = [(k, v)]"
| "map_assign k v ((k', v') # m) =
     (if k < k' then (k, v) # (k', v') # m
      else if k = k' then (k, v) # m
      else (k', v') # map_assign k v m)"

text \<open>\<^verbatim>\<open>m.erase(k)\<close>, and the number of entries it removes.\<close>

definition map_erase :: "'k \<Rightarrow> ('k \<times> 'v) list \<Rightarrow> ('k \<times> 'v) list" where
  "map_erase k m = filter (\<lambda>kv. fst kv \<noteq> k) m"

definition map_erase_count :: "'k \<Rightarrow> ('k \<times> 'v) list \<Rightarrow> nat" where
  "map_erase_count k m = length (filter (\<lambda>kv. fst kv = k) m)"

text \<open>
  A \<^verbatim>\<open>std::set<T*>\<close> is the list of its elements in iteration order, which is address
  order; \<^verbatim>\<open>insert\<close> leaves a set that already holds the pointer as it is.
\<close>

fun set_insert :: "('a \<Rightarrow> nat) \<Rightarrow> 'a \<Rightarrow> 'a list \<Rightarrow> 'a list" where
  "set_insert addr x [] = [x]"
| "set_insert addr x (y # ys) =
     (if addr x < addr y then x # y # ys
      else if addr x = addr y then y # ys
      else y # set_insert addr x ys)"

definition set_erase :: "('a \<Rightarrow> nat) \<Rightarrow> nat \<Rightarrow> 'a list \<Rightarrow> 'a list" where
  "set_erase addr p xs = filter (\<lambda>y. addr y \<noteq> p) xs"

section \<open>\<^verbatim>\<open>webrtc/call/call.cc\<close>\<close>

text \<open>
  The fields of \<^verbatim>\<open>internal::Call\<close>.  \<^verbatim>\<open>event_log\<close> says whether \<^verbatim>\<open>event_log_\<close> is
  non-null; \<^verbatim>\<open>config_voice_engine\<close> is \<^verbatim>\<open>config_.voice_engine\<close>, \<open>None\<close> for
  \<^verbatim>\<open>nullptr\<close>.  The locks and the thread checker are not modelled: the operations run
  one at a time.
\<close>

record Call =
  config_voice_engine :: "nat option"
  config_bitrate_config :: BitrateConfig
  network_enabled :: bool
  audio_receive_ssrcs :: "(uint32 \<times> AudioReceiveStream) list"
  video_receive_ssrcs :: "(uint32 \<times> VideoReceiveStream) list"
  video_receive_streams :: "VideoReceiveStream list"
  sync_stream_mapping :: "string \<rightharpoonup> AudioReceiveStream"
  audio_send_ssrcs :: "(uint32 \<times> AudioSendStream) list"
  video_send_ssrcs :: "(uint32 \<times> VideoSendStream) list"
  video_send_streams :: "VideoSendStream list"
  suspended_video_send_ssrcs :: "(uint32 \<times> RtpState) list"
  event_log :: bool
  trace :: "event list"

definition emit :: "event list \<Rightarrow> Call \<Rightarrow> Call" where
  "emit es c = c\<lparr>trace := trace c @ es\<rparr>"

text \<open>The calls an operation made: what it appended to the trace.\<close>

definition emitted :: "Call \<Rightarrow> Call \<Rightarrow> event list" where
  "emitted c c' = drop (length (trace c)) (trace c')"

text \<open>
  \<^verbatim>\<open>RTC_DCHECK\<close> aborts only in a build with \<^verbatim>\<open>RTC_DCHECK_IS_ON\<close>, which is the
  parameter \<open>dcheck_is_on\<close> of the operations below; \<^verbatim>\<open>RTC_CHECK\<close> aborts in every build.
\<close>

definition RTC_DCHECK :: "bool \<Rightarrow> bool \<Rightarrow> bool" where
  "RTC_DCHECK dcheck_is_on cond = (dcheck_is_on \<longrightarrow> cond)"

subsection \<open>Construction\<close>

text \<open>
  \<open>has_event_log\<close> says whether \<^verbatim>\<open>VoECodec::GetInterface\<close> and \<^verbatim>\<open>GetEventLog\<close> both
  return a non-null pointer.
\<close>

definition Call_ctor :: "bool \<Rightarrow> bool \<Rightarrow> nat option \<Rightarrow> BitrateConfig \<Rightarrow> fatal + Call" where
  "Call_ctor dcheck_is_on has_event_log voice_engine bitrate_config =
     (if \<not> RTC_DCHECK dcheck_is_on (min_bitrate_bps bitrate_config \<ge> 0) then Inl CheckFailed
      else if \<not> RTC_DCHECK dcheck_is_on
                (start_bitrate_bps bitrate_config \<ge> min_bitrate_bps bitrate_config)
      then Inl CheckFailed
      else if max_bitrate_bps bitrate_config \<noteq> -1 \<and>
              \<not> RTC_DCHECK dcheck_is_on
                  (max_bitrate_bps bitrate_config \<ge> start_bitrate_bps bitrate_config)
      then Inl CheckFailed
      else Inr \<lparr> config_voice_engine = voice_engine,
                 config_bitrate_config = bitrate_config,
                 network_enabled = True,
                 audio_receive_ssrcs = [],
                 video_receive_ssrcs = [],
                 video_receive_streams = [],
                 sync_stream_mapping = Map.empty,
                 audio_send_ssrcs = [],
                 video_send_ssrcs = [],
                 video_send_streams = [],
                 suspended_video_send_ssrcs = [],
                 event_log = (voice_engine \<noteq> None \<and> has_event_log),
                 trace = [CongestionController_SetBweBitrates
                            (min_bitrate_bps bitrate_config)
                            (start_bitrate_bps bitrate_config)
                            (max_bitrate_bps bitrate_config)] \<rparr>)"

subsection \<open>\<^verbatim>\<open>Call::ConfigureSync\<close>\<close>

text \<open>
  The scan of \<^verbatim>\<open>audio_receive_ssrcs_\<close> for an audio stream of the group: the first one
  found is kept, a second one logs a warning and ends the scan.
\<close>

fun find_sync_audio_stream ::
  "string \<Rightarrow> (uint32 \<times> AudioReceiveStream) list \<Rightarrow> AudioReceiveStream option
     \<Rightarrow> AudioReceiveStream option \<times> event list" where
  "find_sync_audio_stream sync_group [] sync_audio_stream = (sync_audio_stream, [])"
| "find_sync_audio_stream sync_group (kv # kvs) sync_audio_stream =
     (if ar_sync_group (ar_config (snd kv)) = sync_group then
        (if sync_audio_stream \<noteq> None then
           (sync_audio_stream,
            [LOG_WARNING ''Attempting to sync more than one audio stream within the same sync group.''])
         else find_sync_audio_stream sync_group kvs (Some (snd kv)))
      else find_sync_audio_stream sync_group kvs sync_audio_stream)"

text \<open>
  The loop over \<^verbatim>\<open>video_receive_streams_\<close>, with the counter \<^verbatim>\<open>num_synced_streams\<close>.
\<close>

fun sync_video_streams ::
  "nat option \<Rightarrow> AudioReceiveStream option \<Rightarrow> string \<Rightarrow> VideoReceiveStream list \<Rightarrow> nat
     \<Rightarrow> event list" where
  "sync_video_streams voice_engine sync_audio_stream sync_group [] num_synced_streams = []"
| "sync_video_streams voice_engine sync_audio_stream sync_group (video_stream # rest)
       num_synced_streams =
     (if vr_sync_group (vr_config video_stream) \<noteq> sync_group then
        sync_video_streams voice_engine sync_audio_stream sync_group rest num_synced_streams
      else
        (if num_synced_streams + 1 > 1
         then [LOG_WARNING ''Attempting to sync more than one audio/video pair within the same sync group.'']
         else []) @
        [case sync_audio_stream of
           Some a \<Rightarrow>
             if num_synced_streams + 1 = 1
             then VideoReceiveStream_SetSyncChannel (vr_addr video_stream) voice_engine
                    (ar_voe_channel_id (ar_config a))
             else VideoReceiveStream_SetSyncChannel (vr_addr video_stream) voice_engine (-1)
         | None \<Rightarrow> VideoReceiveStream_SetSyncChannel (vr_addr video_stream) voice_engine (-1)] @
        sync_video_streams voice_engine sync_audio_stream sync_group rest
          (num_synced_streams + 1))"

definition ConfigureSync :: "string \<Rightarrow> Call \<Rightarrow> Call" where
  "ConfigureSync sync_group c =
     (if config_voice_engine c = None \<or> sync_group = [] then c
      else
        let (sync_audio_stream, warnings) =
              (case sync_stream_mapping c sync_group of
                 Some a \<Rightarrow> (Some a, [])
               | None \<Rightarrow> find_sync_audio_stream sync_group (audio_receive_ssrcs c) None);
            c1 = emit warnings c;
            c2 = (case sync_audio_stream of
                    Some a \<Rightarrow> c1\<lparr>sync_stream_mapping := (sync_stream_mapping c1)(sync_group \<mapsto> a)\<rparr>
                  | None \<Rightarrow> c1)
        in emit (sync_video_streams (config_voice_engine c) sync_audio_stream sync_group
                   (video_receive_streams c2) 0) c2)"

subsection \<open>Creating and destroying streams\<close>

text \<open>
  Each \<^verbatim>\<open>Create...\<close> takes the address \<open>p\<close> that \<^verbatim>\<open>new\<close> returned for the stream
  object, and returns the pointer with the new state.
\<close>

definition CreateAudioSendStream ::
  "bool \<Rightarrow> nat \<Rightarrow> AudioSend_Config \<Rightarrow> Call \<Rightarrow> fatal + AudioSendStream \<times> Call" where
  "CreateAudioSendStream dcheck_is_on p config c =
     (let send_stream = \<lparr>as_addr = p, as_config = config\<rparr> in
      if \<not> RTC_DCHECK dcheck_is_on (map_find (audio_send_ssrcs c) (as_rtp_ssrc config) = None)
      then Inl CheckFailed
      else
        let c1 = c\<lparr>audio_send_ssrcs :=
                     map_assign (as_rtp_ssrc config) send_stream (audio_send_ssrcs c)\<rparr>;
            c2 = (if \<not> network_enabled c1
                  then emit [Stream_SignalNetworkState AudioSend p kNetworkDown] c1
                  else c1)
        in Inr (send_stream, c2))"

definition DestroyAudioSendStream :: "bool \<Rightarrow> AudioSendStream \<Rightarrow> Call \<Rightarrow> fatal + Call" where
  "DestroyAudioSendStream dcheck_is_on send_stream c =
     (let c1 = emit [Stream_Stop AudioSend (as_addr send_stream)] c;
          num_deleted = map_erase_count (as_rtp_ssrc (as_config send_stream)) (audio_send_ssrcs c1);
          c2 = c1\<lparr>audio_send_ssrcs :=
                    map_erase (as_rtp_ssrc (as_config send_stream)) (audio_send_ssrcs c1)\<rparr>
      in if \<not> RTC_DCHECK dcheck_is_on (num_deleted = 1) then Inl CheckFailed
         else Inr (emit [Stream_Delete AudioSend (as_addr send_stream)] c2))"

definition CreateAudioReceiveStream ::
  "bool \<Rightarrow> nat \<Rightarrow> AudioReceive_Config \<Rightarrow> Call \<Rightarrow> fatal + AudioReceiveStream \<times> Call" where
  "CreateAudioReceiveStream dcheck_is_on p config c =
     (let receive_stream = \<lparr>ar_addr = p, ar_config = config\<rparr> in
      if \<not> RTC_DCHECK dcheck_is_on
             (map_find (audio_receive_ssrcs c) (ar_rtp_remote_ssrc config) = None)
      then Inl CheckFailed
      else
        let c1 = c\<lparr>audio_receive_ssrcs :=
                     map_assign (ar_rtp_remote_ssrc config) receive_stream (audio_receive_ssrcs c)\<rparr>
        in Inr (receive_stream, ConfigureSync (ar_sync_group config) c1))"

definition DestroyAudioReceiveStream ::
  "bool \<Rightarrow> AudioReceiveStream \<Rightarrow> Call \<Rightarrow> fatal + Call" where
  "DestroyAudioReceiveStream dcheck_is_on audio_receive_stream c =
     (let ssrc = ar_rtp_remote_ssrc (ar_config audio_receive_stream);
          num_deleted = map_erase_count ssrc (audio_receive_ssrcs c);
          c1 = c\<lparr>audio_receive_ssrcs := map_erase ssrc (audio_receive_ssrcs c)\<rparr>
      in if \<not> RTC_DCHECK dcheck_is_on (num_deleted = 1) then Inl CheckFailed
         else
           let sync_group = ar_sync_group (ar_config audio_receive_stream);
               c2 = (case sync_stream_mapping c1 sync_group of
                       Some a \<Rightarrow>
                         if ar_addr a = ar_addr audio_receive_stream
                         then ConfigureSync sync_group
                                (c1\<lparr>sync_stream_mapping :=
                                      (sync_stream_mapping c1)(sync_group := None)\<rparr>)
                         else c1
                     | None \<Rightarrow> c1)
           in Inr (emit [Stream_Delete AudioReceive (ar_addr audio_receive_stream)] c2))"

text \<open>The loop of \<^verbatim>\<open>CreateVideoSendStream\<close> over \<^verbatim>\<open>config.rtp.ssrcs\<close>.\<close>

fun insert_video_send_ssrcs ::
  "bool \<Rightarrow> VideoSendStream \<Rightarrow> uint32 list \<Rightarrow> (uint32 \<times> VideoSendStream) list
     \<Rightarrow> fatal + (uint32 \<times> VideoSendStream) list" where
  "insert_video_send_ssrcs dcheck_is_on send_stream [] m = Inr m"
| "insert_video_send_ssrcs dcheck_is_on send_stream (ssrc # ssrcs) m =
     (if \<not> RTC_DCHECK dcheck_is_on (map_find m ssrc = None) then Inl CheckFailed
      else insert_video_send_ssrcs dcheck_is_on send_stream ssrcs (map_assign ssrc send_stream m))"

definition CreateVideoSendStream ::
  "bool \<Rightarrow> nat \<Rightarrow> VideoSend_Config \<Rightarrow> Call \<Rightarrow> fatal + VideoSendStream \<times> Call" where
  "CreateVideoSendStream dcheck_is_on p config c =
     (let send_stream = \<lparr>vs_addr = p, vs_config = config\<rparr> in
      case insert_video_send_ssrcs dcheck_is_on send_stream (vs_rtp_ssrcs config)
             (video_send_ssrcs c) of
        Inl e \<Rightarrow> Inl e
      | Inr m \<Rightarrow>
          let c1 = c\<lparr>video_send_ssrcs := m,
                     video_send_streams := set_insert vs_addr send_stream (video_send_streams c)\<rparr>;
              c2 = (if event_log c1 then emit [EventLog_LogVideoSendStreamConfig config] c1
                    else c1);
              c3 = (if \<not> network_enabled c2
                    then emit [Stream_SignalNetworkState VideoSend p kNetworkDown] c2
                    else c2)
          in Inr (send_stream, c3))"

text \<open>
  The erasing loops of the two video \<^verbatim>\<open>Destroy...\<close> operations: the entries that point
  to the stream are removed, and \<^verbatim>\<open>..._impl\<close> is the pointer of the last of them
  (\<^verbatim>\<open>nullptr\<close> when there is none).
\<close>

definition entries_of :: "('a \<Rightarrow> nat) \<Rightarrow> nat \<Rightarrow> ('k \<times> 'a) list \<Rightarrow> 'a list" where
  "entries_of addr p m = map snd (filter (\<lambda>kv. addr (snd kv) = p) m)"

definition erase_entries_of :: "('a \<Rightarrow> nat) \<Rightarrow> nat \<Rightarrow> ('k \<times> 'a) list \<Rightarrow> ('k \<times> 'a) list" where
  "erase_entries_of addr p m = filter (\<lambda>kv. addr (snd kv) \<noteq> p) m"

definition last_option :: "'a list \<Rightarrow> 'a option" where
  "last_option xs = (case rev xs of [] \<Rightarrow> None | x # _ \<Rightarrow> Some x)"

text \<open>The merge loop: \<^verbatim>\<open>suspended_video_send_ssrcs_[it->first] = it->second\<close>.\<close>

fun merge_rtp_states ::
  "(uint32 \<times> RtpState) list \<Rightarrow> (uint32 \<times> RtpState) list \<Rightarrow> (uint32 \<times> RtpState) list" where
  "merge_rtp_states [] suspended = suspended"
| "merge_rtp_states (kv # rtp_state) suspended =
     merge_rtp_states rtp_state (map_assign (fst kv) (snd kv) suspended)"

definition DestroyVideoSendStream ::
  "Collaborators \<Rightarrow> VideoSendStream \<Rightarrow> Call \<Rightarrow> fatal + Call" where
  "DestroyVideoSendStream env send_stream c =
     (let c1 = emit [Stream_Stop VideoSend (vs_addr send_stream)] c;
          send_stream_impl =
            last_option (entries_of vs_addr (vs_addr send_stream) (video_send_ssrcs c1));
          c2 = c1\<lparr>video_send_ssrcs :=
                    erase_entries_of vs_addr (vs_addr send_stream) (video_send_ssrcs c1)\<rparr>
      in case send_stream_impl of
           None \<Rightarrow> Inl CheckFailed
         | Some impl \<Rightarrow>
             let c3 = c2\<lparr>video_send_streams :=
                          set_erase vs_addr (vs_addr impl) (video_send_streams c2)\<rparr>;
                 rtp_state = VideoSendStream_GetRtpStates env impl;
                 c4 = c3\<lparr>suspended_video_send_ssrcs :=
                          merge_rtp_states rtp_state (suspended_video_send_ssrcs c3)\<rparr>
             in Inr (emit [Stream_Delete VideoSend (vs_addr impl)] c4))"

definition CreateVideoReceiveStream ::
  "bool \<Rightarrow> nat \<Rightarrow> VideoReceive_Config \<Rightarrow> Call \<Rightarrow> fatal + VideoReceiveStream \<times> Call" where
  "CreateVideoReceiveStream dcheck_is_on p config c =
     (let receive_stream = \<lparr>vr_addr = p, vr_config = config\<rparr> in
      if \<not> RTC_DCHECK dcheck_is_on
             (map_find (video_receive_ssrcs c) (vr_rtp_remote_ssrc config) = None)
      then Inl CheckFailed
      else
        let c1 = c\<lparr>video_receive_ssrcs :=
                     map_assign (vr_rtp_remote_ssrc config) receive_stream
                       (video_receive_ssrcs c)\<rparr>;
            c2 = (case vr_rtp_rtx config of
                    [] \<Rightarrow> c1
                  | it # _ \<Rightarrow>
                      c1\<lparr>video_receive_ssrcs :=
                           map_assign (rtx_ssrc (snd it)) receive_stream
                             (video_receive_ssrcs c1)\<rparr>);
            c3 = c2\<lparr>video_receive_streams :=
                      set_insert vr_addr receive_stream (video_receive_streams c2)\<rparr>;
            c4 = ConfigureSync (vr_sync_group config) c3;
            c5 = (if \<not> network_enabled c4
                  then emit [Stream_SignalNetworkState VideoReceive p kNetworkDown] c4
                  else c4);
            c6 = (if event_log c5 then emit [EventLog_LogVideoReceiveStreamConfig config] c5
                  else c5)
        in Inr (receive_stream, c6))"

definition DestroyVideoReceiveStream ::
  "VideoReceiveStream \<Rightarrow> Call \<Rightarrow> fatal + Call" where
  "DestroyVideoReceiveStream receive_stream c =
     (let receive_stream_impl =
            last_option (entries_of vr_addr (vr_addr receive_stream) (video_receive_ssrcs c));
          c1 = c\<lparr>video_receive_ssrcs :=
                   erase_entries_of vr_addr (vr_addr receive_stream) (video_receive_ssrcs c)\<rparr>
      in case receive_stream_impl of
           None \<Rightarrow> Inl CheckFailed
         | Some impl \<Rightarrow>
             let c2 = c1\<lparr>video_receive_streams :=
                          set_erase vr_addr (vr_addr impl) (video_receive_streams c1)\<rparr>;
                 c3 = ConfigureSync (vr_sync_group (vr_config impl)) c2
             in Inr (emit [Stream_Delete VideoReceive (vr_addr impl)] c3))"

subsection \<open>\<^verbatim>\<open>Call::SetBitrateConfig\<close>, \<^verbatim>\<open>Call::SignalNetworkState\<close>, \<^verbatim>\<open>Call::OnSentPacket\<close>\<close>

definition SetBitrateConfig :: "bool \<Rightarrow> BitrateConfig \<Rightarrow> Call \<Rightarrow> fatal + Call" where
  "SetBitrateConfig dcheck_is_on bitrate_config c =
     (if \<not> RTC_DCHECK dcheck_is_on (min_bitrate_bps bitrate_config \<ge> 0) then Inl CheckFailed
      else if max_bitrate_bps bitrate_config \<noteq> -1 \<and>
              \<not> RTC_DCHECK dcheck_is_on (max_bitrate_bps bitrate_config > 0)
      then Inl CheckFailed
      else if min_bitrate_bps (config_bitrate_config c) = min_bitrate_bps bitrate_config \<and>
              (start_bitrate_bps bitrate_config \<le> 0 \<or>
               start_bitrate_bps (config_bitrate_config c) = start_bitrate_bps bitrate_config) \<and>
              max_bitrate_bps (config_bitrate_config c) = max_bitrate_bps bitrate_config
      then Inr c
      else Inr (emit [CongestionController_SetBweBitrates
                        (min_bitrate_bps bitrate_config)
                        (start_bitrate_bps bitrate_config)
                        (max_bitrate_bps bitrate_config)]
                  (c\<lparr>config_bitrate_config := bitrate_config\<rparr>)))"

definition SignalNetworkState :: "NetworkState \<Rightarrow> Call \<Rightarrow> Call" where
  "SignalNetworkState state c =
     (let c1 = c\<lparr>network_enabled := (state = kNetworkUp)\<rparr>;
          c2 = emit [CongestionController_SignalNetworkState state] c1;
          c3 = emit (map (\<lambda>kv. Stream_SignalNetworkState AudioSend (as_addr (snd kv)) state)
                       (audio_send_ssrcs c2)) c2;
          c4 = emit (map (\<lambda>kv. Stream_SignalNetworkState VideoSend (vs_addr (snd kv)) state)
                       (video_send_ssrcs c3)) c3
      in emit (map (\<lambda>kv. Stream_SignalNetworkState VideoReceive (vr_addr (snd kv)) state)
                 (video_receive_ssrcs c4)) c4)"

definition OnSentPacket :: "SentPacket \<Rightarrow> Call \<Rightarrow> Call" where
  "OnSentPacket sent_packet c = emit [CongestionController_OnSentPacket sent_packet] c"

subsection \<open>Packet delivery\<close>

text \<open>The two loops of \<^verbatim>\<open>Call::DeliverRtcp\<close>, threading \<^verbatim>\<open>rtcp_delivered\<close>.\<close>

fun rtcp_video_receive_loop ::
  "Collaborators \<Rightarrow> bool \<Rightarrow> MediaType \<Rightarrow> uint8 list \<Rightarrow> VideoReceiveStream list \<Rightarrow> bool
     \<Rightarrow> bool \<times> event list" where
  "rtcp_video_receive_loop env log media_type packet [] rtcp_delivered = (rtcp_delivered, [])"
| "rtcp_video_receive_loop env log media_type packet (stream # streams) rtcp_delivered =
     (let accepted = VideoReceiveStream_DeliverRtcp env stream packet;
          (d, es) = rtcp_video_receive_loop env log media_type packet streams
                      (rtcp_delivered \<or> accepted)
      in (d, Stream_DeliverRtcp VideoReceive (vr_addr stream) packet #
             (if accepted \<and> log then [EventLog_LogRtcpPacket True media_type packet] else []) @
             es))"

fun rtcp_video_send_loop ::
  "Collaborators \<Rightarrow> bool \<Rightarrow> MediaType \<Rightarrow> uint8 list \<Rightarrow> VideoSendStream list \<Rightarrow> bool
     \<Rightarrow> bool \<times> event list" where
  "rtcp_video_send_loop env log media_type packet [] rtcp_delivered = (rtcp_delivered, [])"
| "rtcp_video_send_loop env log media_type packet (stream # streams) rtcp_delivered =
     (let accepted = VideoSendStream_DeliverRtcp env stream packet;
          (d, es) = rtcp_video_send_loop env log media_type packet streams
                      (rtcp_delivered \<or> accepted)
      in (d, Stream_DeliverRtcp VideoSend (vs_addr stream) packet #
             (if accepted \<and> log then [EventLog_LogRtcpPacket False media_type packet] else []) @
             es))"

definition DeliverRtcp ::
  "Collaborators \<Rightarrow> MediaType \<Rightarrow> uint8 list \<Rightarrow> Call \<Rightarrow> DeliveryStatus \<times> Call" where
  "DeliverRtcp env media_type packet c =
     (let (d1, c1) =
            (if media_type = ANY \<or> media_type = VIDEO then
               let (d, es) = rtcp_video_receive_loop env (event_log c) media_type packet
                               (video_receive_streams c) False
               in (d, emit es c)
             else (False, c));
          (d2, c2) =
            (if media_type = ANY \<or> media_type = VIDEO then
               let (d, es) = rtcp_video_send_loop env (event_log c1) media_type packet
                               (video_send_streams c1) d1
               in (d, emit es c1)
             else (d1, c1))
      in (if d2 then DELIVERY_OK else DELIVERY_PACKET_ERROR, c2))"

text \<open>
  Modelled from the spec: \<^verbatim>\<open>ByteReader<uint32_t>::ReadBigEndian\<close> of \<^verbatim>\<open>byte_io.h\<close>, which
  is not among the sources: the bytes are read as a big-endian integer.
\<close>

definition ReadBigEndian :: "uint8 list \<Rightarrow> uint32" where
  "ReadBigEndian bytes = foldl (\<lambda>acc b. push_bit 8 acc OR ucast b) 0 bytes"

definition DeliverRtp ::
  "Collaborators \<Rightarrow> MediaType \<Rightarrow> uint8 list \<Rightarrow> PacketTime \<Rightarrow> Call \<Rightarrow> DeliveryStatus \<times> Call"
  where
  "DeliverRtp env media_type packet packet_time c =
     (if length packet < 12 then (DELIVERY_PACKET_ERROR, c)
      else
        let ssrc = ReadBigEndian (take 4 (drop 8 packet)) in
        case (if media_type = ANY \<or> media_type = AUDIO
              then map_find (audio_receive_ssrcs c) ssrc else None) of
          Some a \<Rightarrow>
            let status = (if AudioReceiveStream_DeliverRtp env a packet packet_time
                          then DELIVERY_OK else DELIVERY_PACKET_ERROR);
                c1 = emit [Stream_DeliverRtp AudioReceive (ar_addr a) packet packet_time] c
            in (status,
                if status = DELIVERY_OK \<and> event_log c1
                then emit [EventLog_LogRtpHeader True media_type packet] c1 else c1)
        | None \<Rightarrow>
            (case (if media_type = ANY \<or> media_type = VIDEO
                   then map_find (video_receive_ssrcs c) ssrc else None) of
               Some v \<Rightarrow>
                 let status = (if VideoReceiveStream_DeliverRtp env v packet packet_time
                               then DELIVERY_OK else DELIVERY_PACKET_ERROR);
                     c1 = emit [Stream_DeliverRtp VideoReceive (vr_addr v) packet packet_time] c
                 in (status,
                     if status = DELIVERY_OK \<and> event_log c1
                     then emit [EventLog_LogRtpHeader True media_type packet] c1 else c1)
             | None \<Rightarrow> (DELIVERY_UNKNOWN_SSRC, c)))"

definition DeliverPacket ::
  "Collaborators \<Rightarrow> MediaType \<Rightarrow> uint8 list \<Rightarrow> PacketTime \<Rightarrow> Call \<Rightarrow> DeliveryStatus \<times> Call"
  where
  "DeliverPacket env media_type packet packet_time c =
     (if IsRtcp env packet then DeliverRtcp env media_type packet c
      else DeliverRtp env media_type packet packet_time c)"

subsection \<open>The operations of the public interface\<close>

text \<open>
  The state-changing operations a client can call, for statements about every state
  that a sequence of calls reaches.  \<^verbatim>\<open>GetStats\<close> and \<^verbatim>\<open>Receiver\<close> only read.
\<close>

datatype op =
    Op_CreateAudioSendStream nat AudioSend_Config
  | Op_DestroyAudioSendStream AudioSendStream
  | Op_CreateAudioReceiveStream nat AudioReceive_Config
  | Op_DestroyAudioReceiveStream AudioReceiveStream
  | Op_CreateVideoSendStream nat VideoSend_Config
  | Op_DestroyVideoSendStream VideoSendStream
  | Op_CreateVideoReceiveStream nat VideoReceive_Config
  | Op_DestroyVideoReceiveStream VideoReceiveStream
  | Op_DeliverPacket MediaType "uint8 list" PacketTime
  | Op_SetBitrateConfig BitrateConfig
  | Op_SignalNetworkState NetworkState
  | Op_OnSentPacket SentPacket

fun step :: "bool \<Rightarrow> Collaborators \<Rightarrow> op \<Rightarrow> Call \<Rightarrow> fatal + Call" where
  "step d env (Op_CreateAudioSendStream p config) c =
     map_sum id snd (CreateAudioSendStream d p config c)"
| "step d env (Op_DestroyAudioSendStream s) c = DestroyAudioSendStream d s c"
| "step d env (Op_CreateAudioReceiveStream p config) c =
     map_sum id snd (CreateAudioReceiveStream d p config c)"
| "step d env (Op_DestroyAudioReceiveStream s) c = DestroyAudioReceiveStream d s c"
| "step d env (Op_CreateVideoSendStream p config) c =
     map_sum id snd (CreateVideoSendStream d p config c)"
| "step d env (Op_DestroyVideoSendStream s) c = DestroyVideoSendStream env s c"
| "step d env (Op_CreateVideoReceiveStream p config) c =
     map_sum id snd (CreateVideoReceiveStream d p config c)"
| "step d env (Op_DestroyVideoReceiveStream s) c = DestroyVideoReceiveStream s c"
| "step d env (Op_DeliverPacket media_type packet packet_time) c =
     Inr (snd (DeliverPacket env media_type packet packet_time c))"
| "step d env (Op_SetBitrateConfig bitrate_config) c = SetBitrateConfig d bitrate_config c"
| "step d env (Op_SignalNetworkState state) c = Inr (SignalNetworkState state c)"
| "step d env (Op_OnSentPacket sent_packet) c = Inr (OnSentPacket sent_packet c)"

fun run :: "bool \<Rightarrow> Collaborators \<Rightarrow> op list \<Rightarrow> Call \<Rightarrow> fatal + Call" where
  "run d env [] c = Inr c"
| "run d env (x # xs) c = (case step d env x c of Inl e \<Rightarrow> Inl e | Inr c' \<Rightarrow> run d env xs c')"

subsection \<open>Reading the trace\<close>


fun rtp_deliveries :: "event list \<Rightarrow> (StreamKind \<times> nat) list" where
  "rtp_deliveries [] = []"
| "rtp_deliveries (e # es) =
     (case e of
        Stream_DeliverRtp k a packet packet_time \<Rightarrow> (k, a) # rtp_deliveries es
      | _ \<Rightarrow> rtp_deliveries es)"

fun rtcp_offers :: "event list \<Rightarrow> (StreamKind \<times> nat) list" where
  "rtcp_offers [] = []"
| "rtcp_offers (e # es) =
     (case e of
        Stream_DeliverRtcp k a packet \<Rightarrow> (k, a) # rtcp_offers es
      | _ \<Rightarrow> rtcp_offers es)"

fun sync_channel_calls :: "event list \<Rightarrow> (nat \<times> nat option \<times> int) list" where
  "sync_channel_calls [] = []"
| "sync_channel_calls (e # es) =
     (case e of
        VideoReceiveStream_SetSyncChannel a voice_engine channel \<Rightarrow>
          (a, voice_engine, channel) # sync_channel_calls es
      | _ \<Rightarrow> sync_channel_calls es)"

subsection \<open>Notions used in the statements\<close>

text \<open>
  The new triple matches the stored one, a non-positive start bitrate matching any
  stored start bitrate.
\<close>

definition same_bitrate_triple :: "BitrateConfig \<Rightarrow> BitrateConfig \<Rightarrow> bool" where
  "same_bitrate_triple stored new =
     (min_bitrate_bps new = min_bitrate_bps stored \<and>
      max_bitrate_bps new = max_bitrate_bps stored \<and>
      (start_bitrate_bps new \<le> 0 \<or> start_bitrate_bps new = start_bitrate_bps stored))"

text \<open>The video receive streams of a sync group, in the order of enumeration.\<close>

definition streams_of_group :: "string \<Rightarrow> Call \<Rightarrow> VideoReceiveStream list" where
  "streams_of_group g c = filter (\<lambda>v. vr_sync_group (vr_config v) = g) (video_receive_streams c)"

text \<open>
  A video receive stream is bound to an audio channel when the last
  \<^verbatim>\<open>SetSyncChannel\<close> it received named a channel other than \<open>-1\<close>.
\<close>

definition last_sync_channel :: "nat \<Rightarrow> event list \<Rightarrow> int option" where
  "last_sync_channel a es =
     (case rev (filter (\<lambda>x. fst x = a) (sync_channel_calls es)) of
        [] \<Rightarrow> None
      | x # _ \<Rightarrow> Some (snd (snd x)))"

definition bound_to_audio :: "nat \<Rightarrow> event list \<Rightarrow> bool" where
  "bound_to_audio a es = (case last_sync_channel a es of None \<Rightarrow> False | Some ch \<Rightarrow> ch \<noteq> -1)"

text \<open>
  An operation touches the index entries of a video receive stream \<open>v\<close> when it destroys
  \<open>v\<close>, or creates a video receive stream under one of the two SSRCs.
\<close>

fun touches :: "uint32 \<Rightarrow> uint32 \<Rightarrow> VideoReceiveStream \<Rightarrow> op \<Rightarrow> bool" where
  "touches s1 s2 v (Op_CreateVideoReceiveStream p config) =
     (vr_rtp_remote_ssrc config = s1 \<or> vr_rtp_remote_ssrc config = s2 \<or>
      (case vr_rtp_rtx config of
         [] \<Rightarrow> False
       | it # _ \<Rightarrow> rtx_ssrc (snd it) = s1 \<or> rtx_ssrc (snd it) = s2))"
| "touches s1 s2 v (Op_DestroyVideoReceiveStream s) = (vr_addr s = vr_addr v)"
| "touches s1 s2 v x = False"

subsection \<open>Example values\<close>

definition example_env :: Collaborators where
  "example_env =
     \<lparr> IsRtcp = (\<lambda>packet. case packet of b0 # b1 # _ \<Rightarrow> b1 = 200 | _ \<Rightarrow> False),
       AudioReceiveStream_DeliverRtp = (\<lambda>s packet t. True),
       VideoReceiveStream_DeliverRtp = (\<lambda>s packet t. False),
       VideoReceiveStream_DeliverRtcp = (\<lambda>s packet. vr_addr s = 3),
       VideoSendStream_DeliverRtcp = (\<lambda>s packet. False),
       VideoSendStream_GetRtpStates =
         (\<lambda>s. map (\<lambda>ssrc. (ssrc, RtpState (unat ssrc))) (vs_rtp_ssrcs (vs_config s))) \<rparr>"

definition example_audio :: AudioReceiveStream where
  "example_audio =
     \<lparr>ar_addr = 1,
      ar_config = \<lparr>ar_rtp_remote_ssrc = 1, ar_sync_group = ''g'', ar_voe_channel_id = 5\<rparr>\<rparr>"

definition example_video_config :: VideoReceive_Config where
  "example_video_config =
     \<lparr>vr_rtp_remote_ssrc = 10,
      vr_rtp_rtx = [(96, \<lparr>rtx_ssrc = 11, rtx_payload_type = 97\<rparr>)],
      vr_sync_group = ''g''\<rparr>"

definition example_video :: VideoReceiveStream where
  "example_video = \<lparr>vr_addr = 2, vr_config = example_video_config\<rparr>"

definition example_video2 :: VideoReceiveStream where
  "example_video2 =
     \<lparr>vr_addr = 3,
      vr_config = \<lparr>vr_rtp_remote_ssrc = 12, vr_rtp_rtx = [], vr_sync_group = ''g''\<rparr>\<rparr>"

definition example_send :: VideoSendStream where
  "example_send = \<lparr>vs_addr = 4, vs_config = \<lparr>vs_rtp_ssrcs = [100, 101]\<rparr>\<rparr>"

text \<open>A call with the network down and no stream yet.\<close>

definition empty_call :: Call where
  "empty_call =
     \<lparr> config_voice_engine = Some 1000,
       config_bitrate_config =
         \<lparr>min_bitrate_bps = 100000, start_bitrate_bps = 300000, max_bitrate_bps = 1000000\<rparr>,
       network_enabled = False,
       audio_receive_ssrcs = [],
       video_receive_ssrcs = [],
       video_receive_streams = [],
       sync_stream_mapping = Map.empty,
       audio_send_ssrcs = [],
       video_send_ssrcs = [],
       video_send_streams = [],
       suspended_video_send_ssrcs = [],
       event_log = True,
       trace = [] \<rparr>"

text \<open>The same call with one audio receive, two video receive and one video send stream.\<close>

definition example_call :: Call where
  "example_call =
     empty_call
       \<lparr> audio_receive_ssrcs := [(1, example_audio)],
         video_receive_ssrcs := [(10, example_video), (11, example_video), (12, example_video2)],
         video_receive_streams := [example_video, example_video2],
         sync_stream_mapping := [''g'' \<mapsto> example_audio],
         video_send_ssrcs := [(100, example_send), (101, example_send)],
         video_send_streams := [example_send],
         suspended_video_send_ssrcs := [(7, RtpState 7), (100, RtpState 0)] \<rparr>"

text \<open>The call \<open>empty_call\<close> after \<open>example_video\<close> has been created in it.\<close>

definition example_created :: Call where
  "example_created =
     empty_call
       \<lparr> video_receive_ssrcs := [(10, example_video), (11, example_video)],
         video_receive_streams := [example_video],
         trace := [VideoReceiveStream_SetSyncChannel 2 (Some 1000) (-1),
                   Stream_SignalNetworkState VideoReceive 2 kNetworkDown,
                   EventLog_LogVideoReceiveStreamConfig example_video_config] \<rparr>"

text \<open>A configuration whose RTX SSRC is the primary SSRC of \<open>example_video\<close>.\<close>

definition colliding_config :: VideoReceive_Config where
  "colliding_config =
     \<lparr>vr_rtp_remote_ssrc = 12,
      vr_rtp_rtx = [(96, \<lparr>rtx_ssrc = 10, rtx_payload_type = 97\<rparr>)],
      vr_sync_group = []\<rparr>"

definition example_packet_time :: PacketTime where
  "example_packet_time = \<lparr>timestamp = -1, not_before = -1\<rparr>"

text \<open>A twelve-byte RTP packet with the given last SSRC byte, and an RTCP packet.\<close>

definition example_rtp :: "uint8 \<Rightarrow> uint8 list" where
  "example_rtp b = [128, 96, 0, 1, 0, 0, 0, 0, 0, 0, 0, b]"

definition example_rtcp :: "uint8 list" where
  "example_rtcp = [128, 200, 0, 1, 0, 0, 0, 1]"

section \<open>\<^verbatim>\<open>webrtc/video_engine/vie_receiver.cc\<close>: the encapsulated-packet path\<close>

type_synonym int8 = "8 word" \<comment> \<open>read with \<open>sint\<close>\<close>
type_synonym uint16 = "16 word"

text \<open>The fields of \<^verbatim>\<open>RTPHeader\<close> that the receive path reads.\<close>

record RTPHeader =
  payloadType :: uint8
  sequenceNumber :: uint16
  rtp_timestamp :: uint32
  ssrc :: uint32
  paddingLength :: size_t
  headerLength :: size_t
  payload_type_frequency :: int
  extension_hasVideoRotation :: bool
  extension_videoRotation :: uint8

datatype PayloadUnion = Video_videoCodecType nat

record WebRtcRTPHeader =
  header :: RTPHeader
  type_Video_codec :: nat
  type_Video_rotation :: nat
  ntp_time_ms :: int

datatype rx_event =
    ReceiveStatistics_FecPacketReceived RTPHeader size_t
  | VideoCodingModule_IncomingPacket "uint8 list" size_t WebRtcRTPHeader
  | FecReceiver_AddReceivedRedPacket RTPHeader "uint8 list" size_t int8
  | FecReceiver_ProcessReceivedFec
  | RtpReceiver_IncomingRtpPacket RTPHeader "uint8 list" size_t PayloadUnion bool
  | RX_LOG_WARNING string

text \<open>
  The answers of the payload registry, the header parser, the FEC receiver, the RTP
  receiver, the statistics and the video coding module, none of which is part of
  \<^verbatim>\<open>vie_receiver.cc\<close>.  \<^verbatim>\<open>RestoreOriginalPacket\<close> gets the scratch buffer, the packet
  and its length, and answers with its result, the buffer as it left it and the length
  it stored.  \<open>assert_is_on\<close> says whether \<^verbatim>\<open>assert\<close> is compiled in.  Packets that the
  FEC receiver recovers and hands back through its callback are not followed.
\<close>

record ReceiverEnv =
  IsEncapsulated :: "RTPHeader \<Rightarrow> bool"
  IsRed :: "RTPHeader \<Rightarrow> bool"
  IsRtx :: "RTPHeader \<Rightarrow> bool"
  ulpfec_payload_type :: int8
  last_received_media_payload_type :: int8
  GetPayloadSpecifics :: "uint8 \<Rightarrow> PayloadUnion option"
  RestoreOriginalPacket ::
    "uint8 list \<Rightarrow> uint8 list \<Rightarrow> size_t \<Rightarrow> uint32 \<Rightarrow> RTPHeader \<Rightarrow> bool \<times> uint8 list \<times> size_t"
  Parse :: "uint8 list \<Rightarrow> size_t \<Rightarrow> RTPHeader option"
  RtpReceiver_SSRC :: uint32
  RtpReceiver_IncomingRtpPacket_result ::
    "RTPHeader \<Rightarrow> uint8 list \<Rightarrow> size_t \<Rightarrow> PayloadUnion \<Rightarrow> bool \<Rightarrow> bool"
  GetStatistician :: "uint32 \<Rightarrow> (uint16 \<Rightarrow> bool) option"
  AddReceivedRedPacket_result :: "RTPHeader \<Rightarrow> uint8 list \<Rightarrow> size_t \<Rightarrow> int8 \<Rightarrow> int"
  ProcessReceivedFec_result :: "RTPHeader \<Rightarrow> uint8 list \<Rightarrow> size_t \<Rightarrow> int"
  RemoteNtpTimeEstimator_Estimate :: "uint32 \<Rightarrow> int"
  VideoCodingModule_IncomingPacket_result :: "uint8 list \<Rightarrow> size_t \<Rightarrow> WebRtcRTPHeader \<Rightarrow> int"
  ConvertCVOByteToVideoRotation :: "uint8 \<Rightarrow> nat"
  kVideoRotation_0 :: nat
  assert_is_on :: bool

text \<open>
  The fields of \<^verbatim>\<open>ViEReceiver\<close> that this path reads or writes, and the trace of its
  calls on collaborators.  \<^verbatim>\<open>restored_packet_\<close> is an array: the list of its bytes.
\<close>

record ViEReceiver =
  restored_packet :: "uint8 list"
  restored_packet_in_use :: bool
  rx_trace :: "rx_event list"

datatype rx_fault = OutOfBoundsRead | AssertFailed

definition rx_emit :: "rx_event list \<Rightarrow> ViEReceiver \<Rightarrow> ViEReceiver" where
  "rx_emit es r = r\<lparr>rx_trace := rx_trace r @ es\<rparr>"

definition OnReceivedPayloadData ::
  "ReceiverEnv \<Rightarrow> uint8 list \<Rightarrow> size_t \<Rightarrow> WebRtcRTPHeader \<Rightarrow> ViEReceiver \<Rightarrow> int \<times> ViEReceiver"
  where
  "OnReceivedPayloadData env payload_data payload_size rtp_header r =
     (let rtp_header_with_ntp =
            rtp_header\<lparr>ntp_time_ms :=
              RemoteNtpTimeEstimator_Estimate env (rtp_timestamp (header rtp_header))\<rparr>;
          r1 = rx_emit [VideoCodingModule_IncomingPacket payload_data payload_size
                          rtp_header_with_ntp] r
      in if VideoCodingModule_IncomingPacket_result env payload_data payload_size
              rtp_header_with_ntp \<noteq> 0
         then (-1, r1) else (0, r1))"

definition NotifyReceiverOfFecPacket :: "ReceiverEnv \<Rightarrow> RTPHeader \<Rightarrow> ViEReceiver \<Rightarrow> ViEReceiver"
  where
  "NotifyReceiverOfFecPacket env hdr r =
     (let last_media_payload_type = last_received_media_payload_type env in
      if sint last_media_payload_type < 0
      then rx_emit [RX_LOG_WARNING ''Failed to get last media payload type.''] r
      else
        case GetPayloadSpecifics env last_media_payload_type of
          None \<Rightarrow> rx_emit [RX_LOG_WARNING ''Failed to get payload specifics.''] r
        | Some (Video_videoCodecType codec) \<Rightarrow>
            let rtp_header =
                  \<lparr> header = hdr\<lparr>payloadType := last_media_payload_type, paddingLength := 0\<rparr>,
                    type_Video_codec = codec,
                    type_Video_rotation =
                      (if extension_hasVideoRotation hdr
                       then ConvertCVOByteToVideoRotation env (extension_videoRotation hdr)
                       else kVideoRotation_0 env),
                    ntp_time_ms = 0 \<rparr>
            in snd (OnReceivedPayloadData env [] 0 rtp_header r))"

definition IsPacketInOrder :: "ReceiverEnv \<Rightarrow> RTPHeader \<Rightarrow> bool" where
  "IsPacketInOrder env hdr =
     (case GetStatistician env (ssrc hdr) of
        None \<Rightarrow> False
      | Some statistician \<Rightarrow> statistician (sequenceNumber hdr))"

text \<open>
  A packet is the memory that the pointer reaches, as a list of bytes, and the length
  passed with it.  \<^verbatim>\<open>ReceivePacket\<close>, \<^verbatim>\<open>ParseAndHandleEncapsulatingHeader\<close> and
  \<^verbatim>\<open>OnRecoveredPacket\<close> call one another; the nested call is made with
  \<^verbatim>\<open>restored_packet_in_use_\<close> set, which ends the recursion.
\<close>

function
  ReceivePacket ::
    "ReceiverEnv \<Rightarrow> uint8 list \<Rightarrow> size_t \<Rightarrow> RTPHeader \<Rightarrow> bool \<Rightarrow> ViEReceiver
       \<Rightarrow> rx_fault + bool \<times> ViEReceiver"
and
  ParseAndHandleEncapsulatingHeader ::
    "ReceiverEnv \<Rightarrow> uint8 list \<Rightarrow> size_t \<Rightarrow> RTPHeader \<Rightarrow> ViEReceiver
       \<Rightarrow> rx_fault + bool \<times> ViEReceiver"
and
  OnRecoveredPacket ::
    "ReceiverEnv \<Rightarrow> uint8 list \<Rightarrow> size_t \<Rightarrow> ViEReceiver \<Rightarrow> rx_fault + bool \<times> ViEReceiver"
where
  "ReceivePacket env packet packet_length hdr in_order r =
     (if IsEncapsulated env hdr
      then ParseAndHandleEncapsulatingHeader env packet packet_length hdr r
      else if assert_is_on env \<and> \<not> packet_length \<ge> headerLength hdr then Inl AssertFailed
      else
        let payload = drop (unat (headerLength hdr)) packet;
            payload_length = packet_length - headerLength hdr
        in case GetPayloadSpecifics env (payloadType hdr) of
             None \<Rightarrow> Inr (False, r)
           | Some payload_specific \<Rightarrow>
               Inr (RtpReceiver_IncomingRtpPacket_result env hdr payload payload_length
                      payload_specific in_order,
                    rx_emit [RtpReceiver_IncomingRtpPacket hdr payload payload_length
                               payload_specific in_order] r))"
| "ParseAndHandleEncapsulatingHeader env packet packet_length hdr r =
     (if IsRed env hdr then
        let ulpfec_pt = ulpfec_payload_type env in
        if \<not> unat (headerLength hdr) < length packet then Inl OutOfBoundsRead
        else
          let r1 = (if uint (packet ! unat (headerLength hdr)) = sint ulpfec_pt
                    then NotifyReceiverOfFecPacket env hdr
                           (rx_emit [ReceiveStatistics_FecPacketReceived hdr packet_length] r)
                    else r);
              r2 = rx_emit [FecReceiver_AddReceivedRedPacket hdr packet packet_length ulpfec_pt]
                     r1
          in if AddReceivedRedPacket_result env hdr packet packet_length ulpfec_pt \<noteq> 0
             then Inr (False, r2)
             else Inr (ProcessReceivedFec_result env hdr packet packet_length = 0,
                       rx_emit [FecReceiver_ProcessReceivedFec] r2)
      else if IsRtx env hdr then
        if headerLength hdr + paddingLength hdr = packet_length then Inr (True, r)
        else if packet_length < headerLength hdr then Inr (False, r)
        else if unat packet_length > length (restored_packet r) then Inr (False, r)
        else if restored_packet_in_use r
        then Inr (False, rx_emit [RX_LOG_WARNING ''Multiple RTX headers detected, dropping packet.''] r)
        else
          let restored = RestoreOriginalPacket env (restored_packet r) packet packet_length
                           (RtpReceiver_SSRC env) hdr;
              r1 = r\<lparr>restored_packet := fst (snd restored)\<rparr>
          in if \<not> fst restored
             then Inr (False, rx_emit [RX_LOG_WARNING ''Incoming RTX packet: Invalid RTP header''] r1)
             else
               case OnRecoveredPacket env (restored_packet r1) (snd (snd restored))
                      (r1\<lparr>restored_packet_in_use := True\<rparr>) of
                 Inl f \<Rightarrow> Inl f
               | Inr res \<Rightarrow> Inr (fst res, (snd res)\<lparr>restored_packet_in_use := False\<rparr>)
      else Inr (False, r))"
| "OnRecoveredPacket env rtp_packet rtp_packet_length r =
     (case Parse env rtp_packet rtp_packet_length of
        None \<Rightarrow> Inr (False, r)
      | Some hdr \<Rightarrow>
          ReceivePacket env rtp_packet rtp_packet_length
            (hdr\<lparr>payload_type_frequency := 90000\<rparr>)
            (IsPacketInOrder env (hdr\<lparr>payload_type_frequency := 90000\<rparr>)) r)"
  by pat_completeness auto
termination
  by (relation "measure (\<lambda>x. case x of
          Inl (env, packet, packet_length, hdr, in_order, r) \<Rightarrow>
            (if restored_packet_in_use r then 0 else 3) + 2
        | Inr (Inl (env, packet, packet_length, hdr, r)) \<Rightarrow>
            (if restored_packet_in_use r then 0 else 3) + 1
        | Inr (Inr (env, packet, packet_length, r)) \<Rightarrow>
            (if restored_packet_in_use r then 0 else 3) + 3)") auto

declare ReceivePacket.simps [simp del]
declare ParseAndHandleEncapsulatingHeader.simps [simp del]
declare OnRecoveredPacket.simps [simp del]

subsection \<open>Example values\<close>

text \<open>
  A registry for which every header is RTX, and is RED as well when \<open>red\<close> is set; a FEC
  receiver that refuses every packet.
\<close>

definition example_rx_env :: "bool \<Rightarrow> ReceiverEnv" where
  "example_rx_env red =
     \<lparr> IsEncapsulated = (\<lambda>hdr. True),
       IsRed = (\<lambda>hdr. red),
       IsRtx = (\<lambda>hdr. True),
       ulpfec_payload_type = -1,
       last_received_media_payload_type = -1,
       GetPayloadSpecifics = (\<lambda>pt. None),
       RestoreOriginalPacket = (\<lambda>buf packet len ssrc hdr. (False, buf, len)),
       Parse = (\<lambda>packet len. None),
       RtpReceiver_SSRC = 10,
       RtpReceiver_IncomingRtpPacket_result = (\<lambda>hdr payload len specific in_order. True),
       GetStatistician = (\<lambda>ssrc. None),
       AddReceivedRedPacket_result = (\<lambda>hdr packet len pt. -1),
       ProcessReceivedFec_result = (\<lambda>hdr packet len. 0),
       RemoteNtpTimeEstimator_Estimate = (\<lambda>ts. 0),
       VideoCodingModule_IncomingPacket_result = (\<lambda>payload len hdr. 0),
       ConvertCVOByteToVideoRotation = (\<lambda>b. 0),
       kVideoRotation_0 = 0,
       assert_is_on = True \<rparr>"

text \<open>A header of twelve bytes followed by one byte of padding, on the RTX SSRC.\<close>

definition example_header :: RTPHeader where
  "example_header =
     \<lparr> payloadType = 97, sequenceNumber = 1, rtp_timestamp = 0, ssrc = 11,
       paddingLength = 1, headerLength = 12, payload_type_frequency = 90000,
       extension_hasVideoRotation = False, extension_videoRotation = 0 \<rparr>"

definition example_padding_packet :: "uint8 list" where
  "example_padding_packet = [160, 97, 0, 1, 0, 0, 0, 0, 0, 0, 0, 11, 1]"

definition example_receiver :: ViEReceiver where
  "example_receiver =
     \<lparr> restored_packet = replicate 1500 0, restored_packet_in_use = False, rx_trace = [] \<rparr>"

section \<open>Basic facts\<close>


lemma rtp_deliveries_append: "rtp_deliveries (xs @ ys) = rtp_deliveries xs @ rtp_deliveries ys"
  by (induction xs) (auto split: event.splits)

lemma rtcp_offers_append: "rtcp_offers (xs @ ys) = rtcp_offers xs @ rtcp_offers ys"
  by (induction xs) (auto split: event.splits)

lemma sync_channel_calls_append:
  "sync_channel_calls (xs @ ys) = sync_channel_calls xs @ sync_channel_calls ys"
  by (induction xs) (auto split: event.splits)

lemma map_find_assign:
  "map_find (map_assign k v m) k' = (if k' = k then Some v else map_find m k')"
  by (induction m) auto

lemma map_find_filter:
  "map_find m k = Some x \<Longrightarrow> P (k, x) \<Longrightarrow> map_find (filter P m) k = Some x"
  by (induction m) (auto split: if_splits)

section \<open>Packet delivery\<close>

text \<open>
  C2.  A buffer that is not RTCP and is shorter than twelve bytes makes
  \<^verbatim>\<open>DeliverPacket\<close> return \<^verbatim>\<open>DELIVERY_PACKET_ERROR\<close>.  The state that comes back is
  the one that went in, trace included, so no stream's \<^verbatim>\<open>DeliverRtp\<close> was called; and
  the answer is the same whatever the registries hold, so none of them was consulted.
\<close>

theorem short_rtp_is_packet_error:
  assumes "\<not> IsRtcp env packet" and "length packet < 12"
  shows "DeliverPacket env media_type packet packet_time c = (DELIVERY_PACKET_ERROR, c)"
  using assms by (simp add: DeliverPacket_def DeliverRtp_def)

theorem short_rtp_is_packet_error_witness:
  "\<not> IsRtcp example_env [128, 96, 0] \<and> length [128 :: uint8, 96, 0] < 12 \<and>
   DeliverPacket example_env ANY [128, 96, 0] example_packet_time example_call
     = (DELIVERY_PACKET_ERROR, example_call)"
  using short_rtp_is_packet_error
          [of example_env "[128, 96, 0]" ANY example_packet_time example_call]
  by (simp add: example_env_def)

text \<open>
  C3.  A buffer that is not RTCP and has at least twelve bytes carries the SSRC \<open>s\<close> at
  offset 8.  If the media type is \<^verbatim>\<open>ANY\<close> or \<^verbatim>\<open>AUDIO\<close> and \<open>s\<close> is a key of
  \<^verbatim>\<open>audio_receive_ssrcs_\<close>, the only \<^verbatim>\<open>DeliverRtp\<close> call made is the one on that audio
  stream.  Otherwise, if the media type is \<^verbatim>\<open>ANY\<close> or \<^verbatim>\<open>VIDEO\<close> and \<open>s\<close> is a key of
  \<^verbatim>\<open>video_receive_ssrcs_\<close>, the only call is the one on that video stream.  In both cases
  the status is \<^verbatim>\<open>DELIVERY_OK\<close> or \<^verbatim>\<open>DELIVERY_PACKET_ERROR\<close> as the stream answers.  If
  \<open>s\<close> is in neither applicable index the result is \<^verbatim>\<open>DELIVERY_UNKNOWN_SSRC\<close> and nothing
  was called.
\<close>

theorem rtp_routed_by_ssrc:
  assumes "\<not> IsRtcp env packet" and "12 \<le> length packet"
    and "s = ReadBigEndian (take 4 (drop 8 packet))"
    and "R = DeliverPacket env media_type packet packet_time c"
  shows "((media_type = ANY \<or> media_type = AUDIO) \<and> map_find (audio_receive_ssrcs c) s = Some a
            \<longrightarrow> rtp_deliveries (emitted c (snd R)) = [(AudioReceive, ar_addr a)]
                \<and> fst R = (if AudioReceiveStream_DeliverRtp env a packet packet_time
                           then DELIVERY_OK else DELIVERY_PACKET_ERROR))
       \<and> (\<not> ((media_type = ANY \<or> media_type = AUDIO) \<and> map_find (audio_receive_ssrcs c) s \<noteq> None)
            \<and> (media_type = ANY \<or> media_type = VIDEO)
            \<and> map_find (video_receive_ssrcs c) s = Some v
            \<longrightarrow> rtp_deliveries (emitted c (snd R)) = [(VideoReceive, vr_addr v)]
                \<and> fst R = (if VideoReceiveStream_DeliverRtp env v packet packet_time
                           then DELIVERY_OK else DELIVERY_PACKET_ERROR))
       \<and> (\<not> ((media_type = ANY \<or> media_type = AUDIO) \<and> map_find (audio_receive_ssrcs c) s \<noteq> None)
            \<and> \<not> ((media_type = ANY \<or> media_type = VIDEO) \<and> map_find (video_receive_ssrcs c) s \<noteq> None)
            \<longrightarrow> R = (DELIVERY_UNKNOWN_SSRC, c))"
  using assms
  by (auto simp add: DeliverPacket_def DeliverRtp_def Let_def emitted_def emit_def
        split: option.splits)

theorem rtp_routed_by_ssrc_witness:
  "fst (DeliverPacket example_env ANY (example_rtp 1) example_packet_time example_call) = DELIVERY_OK
   \<and> rtp_deliveries (emitted example_call
        (snd (DeliverPacket example_env ANY (example_rtp 1) example_packet_time example_call)))
       = [(AudioReceive, 1)]
   \<and> fst (DeliverPacket example_env ANY (example_rtp 11) example_packet_time example_call)
       = DELIVERY_PACKET_ERROR
   \<and> rtp_deliveries (emitted example_call
        (snd (DeliverPacket example_env ANY (example_rtp 11) example_packet_time example_call)))
       = [(VideoReceive, 2)]
   \<and> DeliverPacket example_env VIDEO (example_rtp 1) example_packet_time example_call
       = (DELIVERY_UNKNOWN_SSRC, example_call)"
proof -
  have not_rtcp: "\<not> IsRtcp example_env (example_rtp b)" for b
    by (simp add: example_env_def example_rtp_def)
  have len: "12 \<le> length (example_rtp b)" for b
    by (simp add: example_rtp_def)
  have ssrc: "ReadBigEndian (take 4 (drop 8 (example_rtp b))) = ucast b" for b
    by (simp add: ReadBigEndian_def example_rtp_def)
  have audio: "map_find (audio_receive_ssrcs example_call) 1 = Some example_audio"
    by (simp add: example_call_def empty_call_def)
  have no_audio: "map_find (audio_receive_ssrcs example_call) 11 = None"
    by (simp add: example_call_def empty_call_def)
  have video: "map_find (video_receive_ssrcs example_call) 11 = Some example_video"
    by (simp add: example_call_def empty_call_def)
  have no_video: "map_find (video_receive_ssrcs example_call) 1 = None"
    by (simp add: example_call_def empty_call_def)
  from rtp_routed_by_ssrc [OF not_rtcp [of 1] len [of 1] refl refl, where c = example_call
         and a = example_audio and v = example_video and packet_time = example_packet_time
         and media_type = ANY]
       rtp_routed_by_ssrc [OF not_rtcp [of 11] len [of 11] refl refl, where c = example_call
         and a = example_audio and v = example_video and packet_time = example_packet_time
         and media_type = ANY]
       rtp_routed_by_ssrc [OF not_rtcp [of 1] len [of 1] refl refl, where c = example_call
         and a = example_audio and v = example_video and packet_time = example_packet_time
         and media_type = VIDEO]
  show ?thesis
    by (simp add: ssrc audio no_audio video no_video example_env_def example_audio_def
          example_video_def)
qed

lemma rtcp_video_receive_loop_fst:
  "fst (rtcp_video_receive_loop env log media_type packet streams d) =
     (d \<or> (\<exists>s\<in>set streams. VideoReceiveStream_DeliverRtcp env s packet))"
  by (induction streams arbitrary: d) (auto simp add: Let_def split_beta)

lemma rtcp_video_receive_loop_offers:
  "rtcp_offers (snd (rtcp_video_receive_loop env log media_type packet streams d)) =
     map (\<lambda>s. (VideoReceive, vr_addr s)) streams"
  by (induction streams arbitrary: d) (auto simp add: Let_def split_beta rtcp_offers_append)

lemma rtcp_video_send_loop_fst:
  "fst (rtcp_video_send_loop env log media_type packet streams d) =
     (d \<or> (\<exists>s\<in>set streams. VideoSendStream_DeliverRtcp env s packet))"
  by (induction streams arbitrary: d) (auto simp add: Let_def split_beta)

lemma rtcp_video_send_loop_offers:
  "rtcp_offers (snd (rtcp_video_send_loop env log media_type packet streams d)) =
     map (\<lambda>s. (VideoSend, vs_addr s)) streams"
  by (induction streams arbitrary: d) (auto simp add: Let_def split_beta rtcp_offers_append)

text \<open>
  C4.  An RTCP buffer delivered with media type \<^verbatim>\<open>VIDEO\<close> or \<^verbatim>\<open>ANY\<close> is offered to every
  stream of \<^verbatim>\<open>video_receive_streams_\<close> and then to every stream of
  \<^verbatim>\<open>video_send_streams_\<close>, once each and to no other; the result is \<^verbatim>\<open>DELIVERY_OK\<close> if
  one of them accepted it and \<^verbatim>\<open>DELIVERY_PACKET_ERROR\<close> if none did.
\<close>

theorem rtcp_fans_out_to_video_streams:
  assumes "IsRtcp env packet" and "media_type = VIDEO \<or> media_type = ANY"
  shows "rtcp_offers (emitted c (snd (DeliverPacket env media_type packet packet_time c))) =
           map (\<lambda>s. (VideoReceive, vr_addr s)) (video_receive_streams c) @
           map (\<lambda>s. (VideoSend, vs_addr s)) (video_send_streams c)
         \<and> fst (DeliverPacket env media_type packet packet_time c) =
             (if (\<exists>s\<in>set (video_receive_streams c). VideoReceiveStream_DeliverRtcp env s packet)
                 \<or> (\<exists>s\<in>set (video_send_streams c). VideoSendStream_DeliverRtcp env s packet)
              then DELIVERY_OK else DELIVERY_PACKET_ERROR)"
  using assms
  by (auto simp add: DeliverPacket_def DeliverRtcp_def Let_def split_beta emitted_def emit_def
        rtcp_offers_append rtcp_video_receive_loop_fst rtcp_video_receive_loop_offers
        rtcp_video_send_loop_fst rtcp_video_send_loop_offers)

theorem rtcp_fans_out_to_video_streams_witness:
  "IsRtcp example_env example_rtcp \<and>
   rtcp_offers (emitted example_call
      (snd (DeliverPacket example_env VIDEO example_rtcp example_packet_time example_call))) =
     [(VideoReceive, 2), (VideoReceive, 3), (VideoSend, 4)] \<and>
   fst (DeliverPacket example_env VIDEO example_rtcp example_packet_time example_call) = DELIVERY_OK"
  using rtcp_fans_out_to_video_streams
          [of example_env example_rtcp VIDEO example_call example_packet_time]
  by (simp add: example_env_def example_rtcp_def example_call_def empty_call_def
        example_video_def example_video2_def example_send_def)

text \<open>
  C10.  An RTCP buffer delivered with media type \<^verbatim>\<open>AUDIO\<close> is offered to no stream: the
  state, trace included, comes back as it was, and the result is
  \<^verbatim>\<open>DELIVERY_PACKET_ERROR\<close> whatever streams are registered.
\<close>

theorem audio_rtcp_is_packet_error:
  assumes "IsRtcp env packet"
  shows "DeliverPacket env AUDIO packet packet_time c = (DELIVERY_PACKET_ERROR, c)"
  using assms by (simp add: DeliverPacket_def DeliverRtcp_def)

theorem audio_rtcp_is_packet_error_witness:
  "IsRtcp example_env example_rtcp \<and>
   DeliverPacket example_env AUDIO example_rtcp example_packet_time example_call
     = (DELIVERY_PACKET_ERROR, example_call)"
  using audio_rtcp_is_packet_error [of example_env example_rtcp example_packet_time example_call]
  by (simp add: example_env_def example_rtcp_def)

section \<open>Bitrate configuration\<close>

text \<open>
  C5.  For a configuration that meets the argument checks of \<^verbatim>\<open>SetBitrateConfig\<close>
  (minimum not negative; maximum \<open>-1\<close> or positive): if the new triple matches the
  stored one, a non-positive start bitrate matching any stored start, the call changes
  nothing, so the stored configuration stays and \<^verbatim>\<open>SetBweBitrates\<close> is not called;
  otherwise the stored configuration becomes the new one and \<^verbatim>\<open>SetBweBitrates\<close> is
  called exactly once, with the new minimum, start and maximum.
\<close>

theorem SetBitrateConfig_noop_or_update:
  assumes "0 \<le> min_bitrate_bps new"
      and "max_bitrate_bps new = -1 \<or> 0 < max_bitrate_bps new"
  shows "SetBitrateConfig dcheck_is_on new c =
           (if same_bitrate_triple (config_bitrate_config c) new then Inr c
            else Inr (c\<lparr>config_bitrate_config := new,
                        trace := trace c @ [CongestionController_SetBweBitrates
                                   (min_bitrate_bps new) (start_bitrate_bps new)
                                   (max_bitrate_bps new)]\<rparr>))"
  using assms
  by (auto simp add: SetBitrateConfig_def RTC_DCHECK_def same_bitrate_triple_def emit_def)

theorem SetBitrateConfig_noop_or_update_witness:
  "SetBitrateConfig True
     \<lparr>min_bitrate_bps = 100000, start_bitrate_bps = -1, max_bitrate_bps = 1000000\<rparr> example_call
     = Inr example_call
   \<and> SetBitrateConfig True
       \<lparr>min_bitrate_bps = 100000, start_bitrate_bps = 500000, max_bitrate_bps = -1\<rparr> example_call
     = Inr (example_call
         \<lparr>config_bitrate_config :=
            \<lparr>min_bitrate_bps = 100000, start_bitrate_bps = 500000, max_bitrate_bps = -1\<rparr>,
          trace := [CongestionController_SetBweBitrates 100000 500000 (-1)]\<rparr>)"
  using SetBitrateConfig_noop_or_update
          [of "\<lparr>min_bitrate_bps = 100000, start_bitrate_bps = -1, max_bitrate_bps = 1000000\<rparr>"
              True example_call]
        SetBitrateConfig_noop_or_update
          [of "\<lparr>min_bitrate_bps = 100000, start_bitrate_bps = 500000, max_bitrate_bps = -1\<rparr>"
              True example_call]
  by (simp add: same_bitrate_triple_def example_call_def empty_call_def)

section \<open>Network state at creation\<close>



lemma ConfigureSync_trace:
  "trace (ConfigureSync g c) = trace c @ emitted c (ConfigureSync g c)"
  by (simp add: ConfigureSync_def emitted_def emit_def Let_def split_beta split: option.splits)


lemma ConfigureSync_fields:
  "network_enabled (ConfigureSync g c) = network_enabled c"
  "event_log (ConfigureSync g c) = event_log c"
  "video_receive_ssrcs (ConfigureSync g c) = video_receive_ssrcs c"
  "video_receive_streams (ConfigureSync g c) = video_receive_streams c"
  "config_voice_engine (ConfigureSync g c) = config_voice_engine c"
  by (simp_all add: ConfigureSync_def emit_def Let_def split_beta split: option.splits)





section \<open>Suspended RTP states\<close>

lemma map_find_None_iff: "map_find m k = None \<longleftrightarrow> k \<notin> fst ` set m"
  by (induction m) (auto split: if_splits)

lemma map_find_append:
  "map_find (xs @ ys) k = (case map_find xs k of Some v \<Rightarrow> Some v | None \<Rightarrow> map_find ys k)"
  by (induction xs) auto

lemma map_find_rev_distinct:
  "distinct (map fst m) \<Longrightarrow> map_find (rev m) k = map_find m k"
proof (induction m)
  case Nil
  then show ?case by simp
next
  case (Cons kv m)
  obtain k' v' where kv: "kv = (k', v')" by (cases kv)
  from Cons.prems kv have "map_find m k' = None"
    by (simp add: map_find_None_iff)
  with Cons kv show ?case
    by (auto simp add: map_find_append split: option.splits)
qed

lemma map_find_merge_rtp_states:
  "map_find (merge_rtp_states rtp_state suspended) s =
     (case map_find (rev rtp_state) s of Some st \<Rightarrow> Some st | None \<Rightarrow> map_find suspended s)"
  by (induction rtp_state arbitrary: suspended)
     (auto simp add: map_find_assign map_find_append split: option.splits)

lemma last_option_in_set: "last_option xs = Some x \<Longrightarrow> x \<in> set xs"
proof -
  assume "last_option xs = Some x"
  then obtain ys where "rev xs = x # ys"
    by (auto simp add: last_option_def split: list.splits)
  then have "x \<in> set (rev xs)" by simp
  then show ?thesis by simp
qed

lemma last_option_all_equal:
  "last_option xs = Some x \<Longrightarrow> \<forall>e\<in>set xs. e = v \<Longrightarrow> x = v"
  using last_option_in_set by fastforce

text \<open>
  C6.  When \<^verbatim>\<open>DestroyVideoSendStream\<close> completes for a stream \<open>v\<close> (the pointers of the
  registry that have the address of \<open>v\<close> being \<open>v\<close>, and the snapshot
  \<^verbatim>\<open>v->GetRtpStates()\<close> being a \<^verbatim>\<open>std::map\<close>, with one entry for a key): every SSRC that
  has a state in the snapshot has that state in \<^verbatim>\<open>suspended_video_send_ssrcs_\<close>
  afterwards, whatever was stored for it before, and this holds in particular for the
  SSRCs of the configuration of \<open>v\<close>; the entry of every SSRC that is not in the
  snapshot is as it was.
\<close>

theorem DestroyVideoSendStream_merges_rtp_states:
  assumes "DestroyVideoSendStream env v c = Inr c'"
    and "\<forall>kv\<in>set (video_send_ssrcs c). vs_addr (snd kv) = vs_addr v \<longrightarrow> snd kv = v"
    and "distinct (map fst (VideoSendStream_GetRtpStates env v))"
  shows "(\<forall>s st. map_find (VideoSendStream_GetRtpStates env v) s = Some st
            \<longrightarrow> map_find (suspended_video_send_ssrcs c') s = Some st)
       \<and> (\<forall>s\<in>set (vs_rtp_ssrcs (vs_config v)).
             map_find (VideoSendStream_GetRtpStates env v) s \<noteq> None
            \<longrightarrow> map_find (suspended_video_send_ssrcs c') s
                  = map_find (VideoSendStream_GetRtpStates env v) s)
       \<and> (\<forall>s. map_find (VideoSendStream_GetRtpStates env v) s = None
            \<longrightarrow> map_find (suspended_video_send_ssrcs c') s
                  = map_find (suspended_video_send_ssrcs c) s)"
proof -
  from assms(1) obtain impl where
    impl: "last_option (entries_of vs_addr (vs_addr v) (video_send_ssrcs c)) = Some impl"
    by (auto simp add: DestroyVideoSendStream_def Let_def emit_def split: option.splits)
  from assms(2) have "\<forall>e\<in>set (entries_of vs_addr (vs_addr v) (video_send_ssrcs c)). e = v"
    by (auto simp add: entries_of_def)
  with impl have "impl = v"
    by (rule last_option_all_equal)
  with assms(1) impl have
    "suspended_video_send_ssrcs c' =
       merge_rtp_states (VideoSendStream_GetRtpStates env v) (suspended_video_send_ssrcs c)"
    by (auto simp add: DestroyVideoSendStream_def Let_def emit_def)
  then have "map_find (suspended_video_send_ssrcs c') s =
      (case map_find (VideoSendStream_GetRtpStates env v) s of
         Some st \<Rightarrow> Some st | None \<Rightarrow> map_find (suspended_video_send_ssrcs c) s)" for s
    using assms(3) by (simp add: map_find_merge_rtp_states map_find_rev_distinct)
  then show ?thesis
    by (auto split: option.splits)
qed

theorem DestroyVideoSendStream_merges_rtp_states_witness:
  "DestroyVideoSendStream example_env example_send example_call =
     Inr (example_call
            \<lparr>video_send_ssrcs := [], video_send_streams := [],
             suspended_video_send_ssrcs := [(7, RtpState 7), (100, RtpState 100), (101, RtpState 101)],
             trace := [Stream_Stop VideoSend 4, Stream_Delete VideoSend 4]\<rparr>)
   \<and> VideoSendStream_GetRtpStates example_env example_send
       = [(100, RtpState 100), (101, RtpState 101)]
   \<and> map_find (suspended_video_send_ssrcs example_call) 100 = Some (RtpState 0)
   \<and> map_find (suspended_video_send_ssrcs (example_call
            \<lparr>video_send_ssrcs := [], video_send_streams := [],
             suspended_video_send_ssrcs := [(7, RtpState 7), (100, RtpState 100), (101, RtpState 101)],
             trace := [Stream_Stop VideoSend 4, Stream_Delete VideoSend 4]\<rparr>)) 100
       = Some (RtpState 100)
   \<and> map_find (suspended_video_send_ssrcs (example_call
            \<lparr>video_send_ssrcs := [], video_send_streams := [],
             suspended_video_send_ssrcs := [(7, RtpState 7), (100, RtpState 100), (101, RtpState 101)],
             trace := [Stream_Stop VideoSend 4, Stream_Delete VideoSend 4]\<rparr>)) 7
       = Some (RtpState 7)"
proof -
  have snap: "VideoSendStream_GetRtpStates example_env example_send
       = [(100, RtpState 100), (101, RtpState 101)]"
    by (simp add: example_env_def example_send_def)
  have run: "DestroyVideoSendStream example_env example_send example_call =
     Inr (example_call
            \<lparr>video_send_ssrcs := [], video_send_streams := [],
             suspended_video_send_ssrcs := [(7, RtpState 7), (100, RtpState 100), (101, RtpState 101)],
             trace := [Stream_Stop VideoSend 4, Stream_Delete VideoSend 4]\<rparr>)"
    by (simp add: DestroyVideoSendStream_def Let_def emit_def entries_of_def erase_entries_of_def
          last_option_def set_erase_def snap example_call_def empty_call_def)
       (simp add: example_send_def)
  have reg: "\<forall>kv\<in>set (video_send_ssrcs example_call).
       vs_addr (snd kv) = vs_addr example_send \<longrightarrow> snd kv = example_send"
    by (simp add: example_call_def empty_call_def)
  have dist: "distinct (map fst (VideoSendStream_GetRtpStates example_env example_send))"
    by (simp add: snap)
  from DestroyVideoSendStream_merges_rtp_states [OF run reg dist] run snap
  show ?thesis
    by (simp add: example_call_def empty_call_def)
qed

section \<open>The index of video receive streams\<close>

lemma emit_fields:
  "video_receive_ssrcs (emit es c) = video_receive_ssrcs c"
  "video_receive_streams (emit es c) = video_receive_streams c"
  "network_enabled (emit es c) = network_enabled c"
  "event_log (emit es c) = event_log c"
  by (simp_all add: emit_def)

lemma CreateAudioSendStream_index:
  "CreateAudioSendStream d p config c = Inr (s, c') \<Longrightarrow>
     video_receive_ssrcs c' = video_receive_ssrcs c"
  by (auto simp add: CreateAudioSendStream_def Let_def emit_fields split: if_splits)

lemma DestroyAudioSendStream_index:
  "DestroyAudioSendStream d s c = Inr c' \<Longrightarrow> video_receive_ssrcs c' = video_receive_ssrcs c"
  by (auto simp add: DestroyAudioSendStream_def Let_def emit_def split: if_splits)

lemma CreateAudioReceiveStream_index:
  "CreateAudioReceiveStream d p config c = Inr (s, c') \<Longrightarrow>
     video_receive_ssrcs c' = video_receive_ssrcs c"
  by (auto simp add: CreateAudioReceiveStream_def Let_def ConfigureSync_fields split: if_splits)

lemma DestroyAudioReceiveStream_index:
  "DestroyAudioReceiveStream d s c = Inr c' \<Longrightarrow> video_receive_ssrcs c' = video_receive_ssrcs c"
  by (auto simp add: DestroyAudioReceiveStream_def Let_def ConfigureSync_fields emit_fields
        split: if_splits option.splits)

lemma CreateVideoSendStream_index:
  "CreateVideoSendStream d p config c = Inr (s, c') \<Longrightarrow>
     video_receive_ssrcs c' = video_receive_ssrcs c"
  by (auto simp add: CreateVideoSendStream_def Let_def emit_fields split: if_splits sum.splits)

lemma DestroyVideoSendStream_index:
  "DestroyVideoSendStream env s c = Inr c' \<Longrightarrow> video_receive_ssrcs c' = video_receive_ssrcs c"
  by (auto simp add: DestroyVideoSendStream_def Let_def emit_def split: option.splits)

lemma DeliverPacket_index:
  "video_receive_ssrcs (snd (DeliverPacket env media_type packet packet_time c)) =
     video_receive_ssrcs c"
  by (simp add: DeliverPacket_def DeliverRtp_def DeliverRtcp_def Let_def split_beta emit_fields
        split: option.splits)

lemma SetBitrateConfig_index:
  "SetBitrateConfig d b c = Inr c' \<Longrightarrow> video_receive_ssrcs c' = video_receive_ssrcs c"
  by (auto simp add: SetBitrateConfig_def emit_def split: if_splits)

lemma SignalNetworkState_index:
  "video_receive_ssrcs (SignalNetworkState state c) = video_receive_ssrcs c"
  by (simp add: SignalNetworkState_def Let_def emit_def)

lemma CreateVideoReceiveStream_index:
  assumes "CreateVideoReceiveStream d p config c = Inr (s, c')"
  shows "s = \<lparr>vr_addr = p, vr_config = config\<rparr>"
    and "video_receive_ssrcs c' =
          (case vr_rtp_rtx config of
             [] \<Rightarrow> map_assign (vr_rtp_remote_ssrc config) s (video_receive_ssrcs c)
           | it # _ \<Rightarrow> map_assign (rtx_ssrc (snd it)) s
                         (map_assign (vr_rtp_remote_ssrc config) s (video_receive_ssrcs c)))"
  using assms
  by (auto simp add: CreateVideoReceiveStream_def Let_def emit_fields ConfigureSync_fields
        split: if_splits list.splits)

lemma DestroyVideoReceiveStream_index:
  "DestroyVideoReceiveStream s c = Inr c' \<Longrightarrow>
     video_receive_ssrcs c' = erase_entries_of vr_addr (vr_addr s) (video_receive_ssrcs c)"
  by (auto simp add: DestroyVideoReceiveStream_def Let_def emit_fields ConfigureSync_fields
        split: option.splits)

lemma step_keeps_index:
  assumes "step d env x c = Inr c'"
    and "\<not> touches s1 s2 v x"
    and "map_find (video_receive_ssrcs c) s1 = Some v"
    and "map_find (video_receive_ssrcs c) s2 = Some v"
  shows "map_find (video_receive_ssrcs c') s1 = Some v \<and>
         map_find (video_receive_ssrcs c') s2 = Some v"
proof (cases x)
  case (Op_CreateVideoReceiveStream p config)
  with assms(1) obtain s where
    "CreateVideoReceiveStream d p config c = Inr (s, c')"
    by (cases "CreateVideoReceiveStream d p config c") auto
  from CreateVideoReceiveStream_index(2) [OF this] assms(2-4) Op_CreateVideoReceiveStream
  show ?thesis
    by (auto simp add: map_find_assign split: list.splits)
next
  case (Op_DestroyVideoReceiveStream s)
  with assms(1) have "video_receive_ssrcs c' =
      erase_entries_of vr_addr (vr_addr s) (video_receive_ssrcs c)"
    by (simp add: DestroyVideoReceiveStream_index)
  with assms(2-4) Op_DestroyVideoReceiveStream show ?thesis
    by (simp add: erase_entries_of_def map_find_filter)
next
  case (Op_CreateAudioSendStream p config)
  with assms show ?thesis
    by (cases "CreateAudioSendStream d p config c") (auto dest: CreateAudioSendStream_index)
next
  case (Op_DestroyAudioSendStream s)
  with assms show ?thesis by (auto dest: DestroyAudioSendStream_index)
next
  case (Op_CreateAudioReceiveStream p config)
  with assms show ?thesis
    by (cases "CreateAudioReceiveStream d p config c") (auto dest: CreateAudioReceiveStream_index)
next
  case (Op_DestroyAudioReceiveStream s)
  with assms show ?thesis by (auto dest: DestroyAudioReceiveStream_index)
next
  case (Op_CreateVideoSendStream p config)
  with assms show ?thesis
    by (cases "CreateVideoSendStream d p config c") (auto dest: CreateVideoSendStream_index)
next
  case (Op_DestroyVideoSendStream s)
  with assms show ?thesis by (auto dest: DestroyVideoSendStream_index)
next
  case (Op_DeliverPacket media_type packet packet_time)
  with assms show ?thesis by (auto simp add: DeliverPacket_index)
next
  case (Op_SetBitrateConfig b)
  with assms show ?thesis by (auto dest: SetBitrateConfig_index)
next
  case (Op_SignalNetworkState state)
  with assms show ?thesis by (auto simp add: SignalNetworkState_index)
next
  case (Op_OnSentPacket sent)
  with assms show ?thesis by (auto simp add: OnSentPacket_def emit_fields)
qed

lemma run_keeps_index:
  assumes "run d env ops c = Inr c'"
    and "\<forall>x\<in>set ops. \<not> touches s1 s2 v x"
    and "map_find (video_receive_ssrcs c) s1 = Some v"
    and "map_find (video_receive_ssrcs c) s2 = Some v"
  shows "map_find (video_receive_ssrcs c') s1 = Some v \<and>
         map_find (video_receive_ssrcs c') s2 = Some v"
  using assms
proof (induction ops arbitrary: c)
  case Nil
  then show ?case by simp
next
  case (Cons x xs)
  from Cons.prems(1) obtain c1 where s: "step d env x c = Inr c1" and r: "run d env xs c1 = Inr c'"
    by (auto split: sum.splits)
  from step_keeps_index [OF s _ Cons.prems(3,4)] Cons.prems(2)
  have "map_find (video_receive_ssrcs c1) s1 = Some v \<and>
        map_find (video_receive_ssrcs c1) s2 = Some v" by simp
  with Cons.IH [OF r] Cons.prems(2) show ?case by simp
qed

text \<open>
  C7, as the code has it.  When \<^verbatim>\<open>CreateVideoReceiveStream\<close> returns a stream \<open>v\<close> whose
  configuration has a non-empty RTX map, both the primary SSRC and the SSRC of the first
  RTX entry are keys of \<^verbatim>\<open>video_receive_ssrcs_\<close> that map to \<open>v\<close>.  Both keys go on
  mapping to \<open>v\<close> after every sequence of further operations that complete, as long as
  none of them destroys \<open>v\<close> or creates a video receive stream whose primary SSRC or
  first RTX SSRC is one of the two.
\<close>

theorem rtx_and_primary_resolve_to_stream:
  assumes "CreateVideoReceiveStream d p config c = Inr (v, c')"
    and "vr_rtp_rtx config = it # rest"
  shows "map_find (video_receive_ssrcs c') (vr_rtp_remote_ssrc config) = Some v
       \<and> map_find (video_receive_ssrcs c') (rtx_ssrc (snd it)) = Some v
       \<and> (\<forall>ops c''.
            (\<forall>x\<in>set ops. \<not> touches (vr_rtp_remote_ssrc config) (rtx_ssrc (snd it)) v x)
            \<longrightarrow> run d env ops c' = Inr c''
            \<longrightarrow> map_find (video_receive_ssrcs c'') (vr_rtp_remote_ssrc config) = Some v
                \<and> map_find (video_receive_ssrcs c'') (rtx_ssrc (snd it)) = Some v)"
proof -
  from CreateVideoReceiveStream_index(2) [OF assms(1)] assms(2)
  have now: "map_find (video_receive_ssrcs c') (vr_rtp_remote_ssrc config) = Some v
       \<and> map_find (video_receive_ssrcs c') (rtx_ssrc (snd it)) = Some v"
    by (simp add: map_find_assign)
  then show ?thesis
    using run_keeps_index by blast
qed

theorem rtx_and_primary_resolve_to_stream_witness:
  "CreateVideoReceiveStream True 2 example_video_config empty_call
     = Inr (example_video, example_created)
   \<and> \<not> isl (run True example_env
        [Op_SignalNetworkState kNetworkUp,
         Op_CreateVideoReceiveStream 3 (vr_config example_video2),
         Op_DeliverPacket ANY (example_rtp 11) example_packet_time,
         Op_DestroyVideoReceiveStream example_video2] example_created)
   \<and> map_find (video_receive_ssrcs (projr (run True example_env
        [Op_SignalNetworkState kNetworkUp,
         Op_CreateVideoReceiveStream 3 (vr_config example_video2),
         Op_DeliverPacket ANY (example_rtp 11) example_packet_time,
         Op_DestroyVideoReceiveStream example_video2] example_created))) 10 = Some example_video
   \<and> map_find (video_receive_ssrcs (projr (run True example_env
        [Op_SignalNetworkState kNetworkUp,
         Op_CreateVideoReceiveStream 3 (vr_config example_video2),
         Op_DeliverPacket ANY (example_rtp 11) example_packet_time,
         Op_DestroyVideoReceiveStream example_video2] example_created))) 11 = Some example_video"
proof -
  define ops where "ops =
        [Op_SignalNetworkState kNetworkUp,
         Op_CreateVideoReceiveStream 3 (vr_config example_video2),
         Op_DeliverPacket ANY (example_rtp 11) example_packet_time,
         Op_DestroyVideoReceiveStream example_video2]"
  have create: "CreateVideoReceiveStream True 2 example_video_config empty_call
     = Inr (example_video, example_created)"
    by (simp add: CreateVideoReceiveStream_def RTC_DCHECK_def empty_call_def emit_def
          example_video_def example_video_config_def ConfigureSync_def Let_def
          example_created_def)
  have rtx: "vr_rtp_rtx example_video_config = (96, \<lparr>rtx_ssrc = 11, rtx_payload_type = 97\<rparr>) # []"
    by (simp add: example_video_config_def)
  have quiet: "\<forall>x\<in>set ops. \<not> touches (vr_rtp_remote_ssrc example_video_config)
       (rtx_ssrc (snd (96 :: int, \<lparr>rtx_ssrc = 11, rtx_payload_type = 97\<rparr>))) example_video x"
    by (simp add: ops_def example_video_config_def example_video2_def example_video_def)
  have s1: "step True example_env (Op_SignalNetworkState kNetworkUp) example_created
      = Inr (SignalNetworkState kNetworkUp example_created)"
    by simp
  have ok: "\<not> isl (run True example_env ops example_created)"
    by (simp add: ops_def SignalNetworkState_def CreateVideoReceiveStream_def
          DestroyVideoReceiveStream_def DeliverPacket_def DeliverRtp_def RTC_DCHECK_def
          ConfigureSync_def Let_def emit_def example_created_def empty_call_def
          example_video_def example_video2_def example_video_config_def example_env_def
          example_rtp_def ReadBigEndian_def entries_of_def erase_entries_of_def
          last_option_def set_erase_def)
  then have run: "run True example_env ops example_created
      = Inr (projr (run True example_env ops example_created))"
    by (cases "run True example_env ops example_created") simp_all
  from rtx_and_primary_resolve_to_stream [OF create rtx, of example_env] quiet run
  have "map_find (video_receive_ssrcs (projr (run True example_env ops example_created)))
          (vr_rtp_remote_ssrc example_video_config) = Some example_video
      \<and> map_find (video_receive_ssrcs (projr (run True example_env ops example_created)))
          (rtx_ssrc (snd (96 :: int, \<lparr>rtx_ssrc = 11, rtx_payload_type = 97\<rparr>))) = Some example_video"
    by blast
  then show ?thesis
    using create ok by (simp add: ops_def example_video_config_def)
qed

text \<open>
  C7, as stated, fails: the property does not last until \<open>v\<close> is destroyed.  The insertion
  of the RTX SSRC is an assignment that no check guards, so creating a second video
  receive stream whose RTX SSRC is the primary SSRC of \<open>v\<close> completes, also with
  \<^verbatim>\<open>RTC_DCHECK\<close> on, and takes that key away from \<open>v\<close>.
\<close>

theorem rtx_and_primary_resolve_to_stream_counterexample:
  "CreateVideoReceiveStream True 2 example_video_config empty_call
     = Inr (example_video, example_created)
   \<and> vr_rtp_rtx example_video_config \<noteq> []
   \<and> \<not> isl (CreateVideoReceiveStream True 3 colliding_config example_created)
   \<and> map_find (video_receive_ssrcs
        (snd (projr (CreateVideoReceiveStream True 3 colliding_config example_created))))
        (vr_rtp_remote_ssrc example_video_config)
       \<noteq> Some example_video"
  by (simp add: CreateVideoReceiveStream_def RTC_DCHECK_def empty_call_def emit_def
        example_video_def example_video_config_def ConfigureSync_def Let_def
        example_created_def colliding_config_def)

section \<open>Sync groups\<close>

lemma sync_channel_calls_find_sync_audio_stream:
  "sync_channel_calls (snd (find_sync_audio_stream g m acc)) = []"
  by (induction m arbitrary: acc) auto

lemma sync_channel_calls_later_streams:
  "0 < n \<Longrightarrow>
   sync_channel_calls (sync_video_streams ve anchor g vs n) =
     map (\<lambda>w. (vr_addr w, ve, -1)) (filter (\<lambda>v. vr_sync_group (vr_config v) = g) vs)"
  by (induction vs arbitrary: n) (auto simp add: sync_channel_calls_append split: option.splits)

lemma sync_channel_calls_sync_video_streams:
  "sync_channel_calls (sync_video_streams ve anchor g vs 0) =
     (case filter (\<lambda>v. vr_sync_group (vr_config v) = g) vs of
        [] \<Rightarrow> []
      | v # rest \<Rightarrow>
          (vr_addr v, ve, case anchor of Some a \<Rightarrow> ar_voe_channel_id (ar_config a) | None \<Rightarrow> -1)
          # map (\<lambda>w. (vr_addr w, ve, -1)) rest)"
  by (induction vs)
     (auto simp add: sync_channel_calls_append sync_channel_calls_later_streams
           split: option.splits)

lemma ConfigureSync_anchor:
  assumes "config_voice_engine c = Some ve" and "g \<noteq> []"
  shows "sync_stream_mapping (ConfigureSync g c) g =
     (case sync_stream_mapping c g of
        Some a \<Rightarrow> Some a
      | None \<Rightarrow> fst (find_sync_audio_stream g (audio_receive_ssrcs c) None))"
  using assms
  by (simp add: ConfigureSync_def Let_def split_beta emit_def split: option.splits)

lemma ConfigureSync_emitted_calls:
  assumes "config_voice_engine c = Some ve" and "g \<noteq> []"
  shows "sync_channel_calls (emitted c (ConfigureSync g c)) =
     sync_channel_calls (sync_video_streams (Some ve)
       (case sync_stream_mapping c g of
          Some a \<Rightarrow> Some a
        | None \<Rightarrow> fst (find_sync_audio_stream g (audio_receive_ssrcs c) None))
       g (video_receive_streams c) 0)"
  using assms
  by (simp add: ConfigureSync_def Let_def split_beta emit_def emitted_def
        sync_channel_calls_append sync_channel_calls_find_sync_audio_stream
        split: option.splits)

lemma ConfigureSync_sync_channel_calls:
  assumes "config_voice_engine c \<noteq> None" and "g \<noteq> []"
  shows "sync_channel_calls (emitted c (ConfigureSync g c)) =
     (case streams_of_group g c of
        [] \<Rightarrow> []
      | v # rest \<Rightarrow>
          (vr_addr v, config_voice_engine c,
           case sync_stream_mapping (ConfigureSync g c) g of
             Some a \<Rightarrow> ar_voe_channel_id (ar_config a) | None \<Rightarrow> -1)
          # map (\<lambda>w. (vr_addr w, config_voice_engine c, -1)) rest)"
proof -
  from assms(1) obtain ve where ve: "config_voice_engine c = Some ve" by auto
  show ?thesis
    unfolding ConfigureSync_emitted_calls [OF ve assms(2)] ConfigureSync_anchor [OF ve assms(2)]
    by (simp add: sync_channel_calls_sync_video_streams streams_of_group_def ve
          split: list.splits)
qed

lemma unbound_after_unbinding_calls:
  assumes "\<forall>x\<in>set (sync_channel_calls e). fst x = a \<longrightarrow> snd (snd x) = -1"
    and "\<exists>x\<in>set (sync_channel_calls e). fst x = a"
  shows "\<not> bound_to_audio a (t @ e)"
proof -
  define F where "F = filter (\<lambda>x. fst x = a) (sync_channel_calls e)"
  from assms(2) have "F \<noteq> []"
    by (auto simp add: F_def filter_empty_conv)
  then obtain y ys where rev: "rev F = y # ys"
    by (cases "rev F") auto
  then have "y \<in> set (rev F)" by simp
  then have "y \<in> set F" by simp
  with assms(1) have "snd (snd y) = -1"
    by (auto simp add: F_def)
  moreover have "last_sync_channel a (t @ e) = Some (snd (snd y))"
    using rev by (simp add: last_sync_channel_def sync_channel_calls_append F_def)
  ultimately show ?thesis
    by (simp add: bound_to_audio_def)
qed

lemma only_first_stream_bound:
  assumes "config_voice_engine c \<noteq> None" and "g \<noteq> []"
    and "v \<in> set (streams_of_group g c)"
    and "bound_to_audio (vr_addr v) (trace (ConfigureSync g c))"
  shows "vr_addr v = vr_addr (hd (streams_of_group g c))"
proof (rule ccontr)
  assume differ: "vr_addr v \<noteq> vr_addr (hd (streams_of_group g c))"
  from assms(3) obtain v1 rest where split: "streams_of_group g c = v1 # rest"
    by (cases "streams_of_group g c") auto
  with assms(3) differ have in_rest: "v \<in> set rest" by auto
  define e where "e = emitted c (ConfigureSync g c)"
  have calls: "sync_channel_calls e =
      (vr_addr v1, config_voice_engine c,
       case sync_stream_mapping (ConfigureSync g c) g of
         Some a \<Rightarrow> ar_voe_channel_id (ar_config a) | None \<Rightarrow> -1)
      # map (\<lambda>w. (vr_addr w, config_voice_engine c, -1)) rest"
    using ConfigureSync_sync_channel_calls [OF assms(1,2)] split by (simp add: e_def)
  have "\<forall>x\<in>set (sync_channel_calls e). fst x = vr_addr v \<longrightarrow> snd (snd x) = -1"
    using differ split by (auto simp add: calls)
  moreover have "\<exists>x\<in>set (sync_channel_calls e). fst x = vr_addr v"
    using in_rest by (auto simp add: calls)
  ultimately have "\<not> bound_to_audio (vr_addr v) (trace c @ e)"
    by (rule unbound_after_unbinding_calls)
  moreover have "trace (ConfigureSync g c) = trace c @ e"
    unfolding e_def by (rule ConfigureSync_trace)
  ultimately show False
    using assms(4) by simp
qed

text \<open>
  C8.  A run of \<^verbatim>\<open>ConfigureSync\<close> for a sync group \<open>g\<close> without a voice engine, or for the
  empty group name, changes nothing.  Any other run makes these \<^verbatim>\<open>SetSyncChannel\<close> calls
  and no others, in the order of enumeration of \<^verbatim>\<open>video_receive_streams_\<close>: on the first
  video receive stream of group \<open>g\<close> a call with the voice engine and the channel of the
  audio stream that the run leaves as the anchor of \<open>g\<close> (with \<open>-1\<close> when there is no
  anchor), and on every later stream of the group a call with the voice engine and
  \<open>-1\<close>.  So after the run at most one video receive stream of group \<open>g\<close> is bound to
  an audio channel: two streams of the group that are both bound have the same address.
\<close>

theorem one_video_stream_bound_per_sync_group:
  "(config_voice_engine c = None \<or> g = [] \<longrightarrow> ConfigureSync g c = c)
   \<and> (config_voice_engine c \<noteq> None \<and> g \<noteq> [] \<longrightarrow>
        sync_channel_calls (emitted c (ConfigureSync g c)) =
          (case streams_of_group g c of
             [] \<Rightarrow> []
           | v # rest \<Rightarrow>
               (vr_addr v, config_voice_engine c,
                case sync_stream_mapping (ConfigureSync g c) g of
                  Some a \<Rightarrow> ar_voe_channel_id (ar_config a) | None \<Rightarrow> -1)
               # map (\<lambda>w. (vr_addr w, config_voice_engine c, -1)) rest)
        \<and> (\<forall>v\<in>set (streams_of_group g c). \<forall>w\<in>set (streams_of_group g c).
              bound_to_audio (vr_addr v) (trace (ConfigureSync g c)) \<and>
              bound_to_audio (vr_addr w) (trace (ConfigureSync g c))
              \<longrightarrow> vr_addr v = vr_addr w))"
proof (intro conjI impI ballI)
  assume "config_voice_engine c = None \<or> g = []"
  then show "ConfigureSync g c = c"
    by (auto simp add: ConfigureSync_def)
next
  assume "config_voice_engine c \<noteq> None \<and> g \<noteq> []"
  then show "sync_channel_calls (emitted c (ConfigureSync g c)) =
          (case streams_of_group g c of
             [] \<Rightarrow> []
           | v # rest \<Rightarrow>
               (vr_addr v, config_voice_engine c,
                case sync_stream_mapping (ConfigureSync g c) g of
                  Some a \<Rightarrow> ar_voe_channel_id (ar_config a) | None \<Rightarrow> -1)
               # map (\<lambda>w. (vr_addr w, config_voice_engine c, -1)) rest)"
    by (simp add: ConfigureSync_sync_channel_calls)
next
  fix v w
  assume "config_voice_engine c \<noteq> None \<and> g \<noteq> []"
    and "v \<in> set (streams_of_group g c)" and "w \<in> set (streams_of_group g c)"
    and "bound_to_audio (vr_addr v) (trace (ConfigureSync g c)) \<and>
         bound_to_audio (vr_addr w) (trace (ConfigureSync g c))"
  then show "vr_addr v = vr_addr w"
    using only_first_stream_bound [of c g v] only_first_stream_bound [of c g w] by simp
qed

theorem one_video_stream_bound_per_sync_group_witness:
  "config_voice_engine example_call \<noteq> None \<and> ''g'' \<noteq> []
   \<and> streams_of_group ''g'' example_call = [example_video, example_video2]
   \<and> sync_channel_calls (emitted example_call (ConfigureSync ''g'' example_call))
       = [(2, Some 1000, 5), (3, Some 1000, -1)]
   \<and> bound_to_audio 2 (trace (ConfigureSync ''g'' example_call))
   \<and> \<not> bound_to_audio 3 (trace (ConfigureSync ''g'' example_call))
   \<and> ConfigureSync [] example_call = example_call"
proof -
  have pre: "config_voice_engine example_call \<noteq> None \<and> ''g'' \<noteq> []"
    by (simp add: example_call_def empty_call_def)
  have group: "streams_of_group ''g'' example_call = [example_video, example_video2]"
    by (simp add: streams_of_group_def example_call_def empty_call_def example_video_def
          example_video2_def example_video_config_def)
  have anchor: "sync_stream_mapping (ConfigureSync ''g'' example_call) ''g'' = Some example_audio"
    by (simp add: ConfigureSync_def Let_def emit_def example_call_def empty_call_def)
  have first: "bound_to_audio 2 (trace (ConfigureSync ''g'' example_call))"
    by (simp add: ConfigureSync_def Let_def emit_def example_call_def empty_call_def
          example_video_def example_video2_def example_video_config_def example_audio_def
          bound_to_audio_def last_sync_channel_def)
  note t = one_video_stream_bound_per_sync_group [of example_call]
  from t [of "''g''"] pre have
    calls: "sync_channel_calls (emitted example_call (ConfigureSync ''g'' example_call)) =
          (case streams_of_group ''g'' example_call of
             [] \<Rightarrow> []
           | v # rest \<Rightarrow>
               (vr_addr v, config_voice_engine example_call,
                case sync_stream_mapping (ConfigureSync ''g'' example_call) ''g'' of
                  Some a \<Rightarrow> ar_voe_channel_id (ar_config a) | None \<Rightarrow> -1)
               # map (\<lambda>w. (vr_addr w, config_voice_engine example_call, -1)) rest)"
    and one: "\<forall>v\<in>set (streams_of_group ''g'' example_call).
           \<forall>w\<in>set (streams_of_group ''g'' example_call).
              bound_to_audio (vr_addr v) (trace (ConfigureSync ''g'' example_call)) \<and>
              bound_to_audio (vr_addr w) (trace (ConfigureSync ''g'' example_call))
              \<longrightarrow> vr_addr v = vr_addr w"
    by simp_all
  have c1: "sync_channel_calls (emitted example_call (ConfigureSync ''g'' example_call))
       = [(2, Some 1000, 5), (3, Some 1000, -1)]"
    unfolding calls group anchor
    by (simp add: example_video_def example_video2_def example_audio_def example_call_def
          empty_call_def)
  have c2: "\<not> bound_to_audio 3 (trace (ConfigureSync ''g'' example_call))"
    using one first unfolding group
    by (auto simp add: example_video_def example_video2_def)
  from t [of "[]"] have c3: "ConfigureSync [] example_call = example_call"
    by simp
  show ?thesis
    using pre group c1 first c2 c3 by simp
qed

section \<open>RTX keepalive packets\<close>

lemma size_t_sum_eq:
  fixes a b n :: size_t
  assumes "unat a + unat b = unat n"
  shows "a + b = n"
proof -
  have "unat (a + b) = (unat a + unat b) mod 2 ^ 64"
    by (simp add: unat_word_ariths)
  also have "\<dots> = unat n"
    using assms unsigned_less [of n, where 'a = nat] by simp
  finally show ?thesis
    by (simp add: word_unat_eq_iff)
qed

text \<open>
  C9, as the code has it.  \<^verbatim>\<open>ParseAndHandleEncapsulatingHeader\<close> asks \<^verbatim>\<open>IsRed\<close> before
  \<^verbatim>\<open>IsRtx\<close>.  For a header that the registry classifies as RTX and not as RED, and a
  packet whose length is the header length plus the padding length, it returns
  \<^verbatim>\<open>true\<close> and leaves the receiver as it was: no restoration is attempted, and neither
  \<^verbatim>\<open>restored_packet_\<close> nor \<^verbatim>\<open>restored_packet_in_use_\<close> is written.  So does
  \<^verbatim>\<open>ReceivePacket\<close>, which hands every encapsulated packet to it.
\<close>

theorem rtx_keepalive_is_accepted:
  assumes "\<not> IsRed env hdr" and "IsRtx env hdr"
    and "unat (headerLength hdr) + unat (paddingLength hdr) = unat packet_length"
  shows "ParseAndHandleEncapsulatingHeader env packet packet_length hdr r = Inr (True, r)
       \<and> (IsEncapsulated env hdr \<longrightarrow>
            ReceivePacket env packet packet_length hdr in_order r = Inr (True, r))"
proof -
  from assms(3) have "headerLength hdr + paddingLength hdr = packet_length"
    by (rule size_t_sum_eq)
  with assms(1,2) have
    "ParseAndHandleEncapsulatingHeader env packet packet_length hdr r = Inr (True, r)"
    by (simp add: ParseAndHandleEncapsulatingHeader.simps)
  then show ?thesis
    by (simp add: ReceivePacket.simps)
qed

theorem rtx_keepalive_is_accepted_witness:
  "\<not> IsRed (example_rx_env False) example_header \<and> IsRtx (example_rx_env False) example_header
   \<and> IsEncapsulated (example_rx_env False) example_header
   \<and> unat (headerLength example_header) + unat (paddingLength example_header) = unat (13 :: size_t)
   \<and> ParseAndHandleEncapsulatingHeader (example_rx_env False) example_padding_packet 13
        example_header example_receiver = Inr (True, example_receiver)
   \<and> ReceivePacket (example_rx_env False) example_padding_packet 13 example_header True
        example_receiver = Inr (True, example_receiver)"
proof -
  have a: "\<not> IsRed (example_rx_env False) example_header"
    and b: "IsRtx (example_rx_env False) example_header"
    and e: "IsEncapsulated (example_rx_env False) example_header"
    by (simp_all add: example_rx_env_def)
  have c: "unat (headerLength example_header) + unat (paddingLength example_header)
       = unat (13 :: size_t)"
    by (simp add: example_header_def)
  from rtx_keepalive_is_accepted [OF a b c, of example_padding_packet example_receiver True]
  show ?thesis
    using a b c e by simp
qed

text \<open>
  C9, as stated, fails for a header that is classified both as RTX and as RED: the packet
  takes the RED branch, goes to the FEC receiver, and the result is what the FEC receiver
  says, here \<^verbatim>\<open>false\<close>.
\<close>

theorem red_on_rtx_ssrc_counterexample:
  "IsRtx (example_rx_env True) example_header
   \<and> unat (headerLength example_header) + unat (paddingLength example_header) = unat (13 :: size_t)
   \<and> ParseAndHandleEncapsulatingHeader (example_rx_env True) example_padding_packet 13
        example_header example_receiver
       = Inr (False, example_receiver
            \<lparr>rx_trace := [FecReceiver_AddReceivedRedPacket example_header
                            example_padding_packet 13 (-1)]\<rparr>)
   \<and> ReceivePacket (example_rx_env True) example_padding_packet 13 example_header True
        example_receiver
       = Inr (False, example_receiver
            \<lparr>rx_trace := [FecReceiver_AddReceivedRedPacket example_header
                            example_padding_packet 13 (-1)]\<rparr>)"
  by (simp add: ReceivePacket.simps ParseAndHandleEncapsulatingHeader.simps example_rx_env_def
        example_header_def example_padding_packet_def example_receiver_def rx_emit_def)

end
